theory Spec2Isabelle
  imports Complex_Main "HOL-Library.AList" "HOL-Library.Sublist"
begin

section \<open>Errors\<close>

text \<open>
  The provider classes of \<^verbatim>\<open>src/scanners/providers/\<close>. Every class implements
  \<^verbatim>\<open>IBarcodeProvider\<close>; \<^verbatim>\<open>Quagga2Provider\<close> exists as a skeleton, its registration in
  the registry is commented out.
\<close>

datatype provider_class =
    ZXingProvider
  | BarcodeDetectorProvider
  | ZXingWasmProvider
  | DynamsoftProvider
  | Quagga2Provider

text \<open>
  Every \<^verbatim>\<open>throw new Error(...)\<close> and \<^verbatim>\<open>reject(new Error(...))\<close> of the modelled
  sources is one constructor; \<open>External\<close> is an error raised by a collaborator (a decoding
  engine, the module loader, the camera, the browser). \<open>NotInitialized\<close> carries the class
  whose handle check threw it (the Quagga2 skeleton has none and never throws it).
\<close>

datatype error =
    NotInitialized provider_class
  | NotImplemented
  | NotInstalled
  | BarcodeDetectorNotSupported
  | CannotGetCanvasContext
  | UnknownProvider string
  | NoProviderInitialized
  | InvalidImageFile
  | NoBarcodeFound
  | FailedToLoadImage
  | FailedToReadFile
  | CannotCreateThumbnail
  | LoadImageFailed
  | ReadFileFailed
  | External string

fun message :: "error \<Rightarrow> string" where
  "message (NotInitialized ZXingProvider) = ''ZXing provider not initialized''"
| "message (NotInitialized BarcodeDetectorProvider) = ''BarcodeDetector provider not initialized''"
| "message (NotInitialized ZXingWasmProvider) = ''ZXing-WASM not initialised''"
| "message (NotInitialized DynamsoftProvider) = ''Dynamsoft provider not initialised''"
| "message (NotInitialized Quagga2Provider) = ''Quagga2Provider not yet implemented''"
| "message NotImplemented = ''Quagga2Provider not yet implemented''"
| "message NotInstalled =
     ''Quagga2Provider not yet implemented. Install quagga2 package and implement this provider.''"
| "message BarcodeDetectorNotSupported = ''BarcodeDetector API not supported in this browser''"
| "message CannotGetCanvasContext = ''Cannot get canvas context''"
| "message (UnknownProvider providerName) = ''Unknown provider: '' @ providerName"
| "message NoProviderInitialized = ''No provider initialized''"
| "message InvalidImageFile = ''Please select a valid image file.''"
| "message NoBarcodeFound = ''No barcode found in the image. Please try another image.''"
| "message FailedToLoadImage = ''Failed to load image. Please try another file.''"
| "message FailedToReadFile = ''Failed to read file.''"
| "message CannotCreateThumbnail = ''Cannot create thumbnail''"
| "message LoadImageFailed = ''Failed to load image''"
| "message ReadFileFailed = ''Failed to read file''"
| "message (External msg) = msg"

section \<open>Collaborators\<close>

text \<open>
  What the browser and the third-party engines answer during one run: whether the dynamic
  \<^verbatim>\<open>import()\<close> of a provider module resolves, whether \<^verbatim>\<open>'BarcodeDetector' in window\<close>,
  whether constructing an engine throws, whether \<^verbatim>\<open>localStorage\<close> throws, and how long
  loading and initialising take on the \<^verbatim>\<open>performance.now()\<close> clock (milliseconds).
\<close>

record env =
  module_import :: "provider_class \<Rightarrow> error option"
  barcodeDetector_in_window :: bool
  engine_setup :: "provider_class \<Rightarrow> error option"
  storage_fails :: bool
  import_time :: "provider_class \<Rightarrow> rat"
  init_time :: "provider_class \<Rightarrow> rat"

text \<open>
  What one scan call sees of its video element, image or canvas: the pixel dimensions,
  whether the image is an \<^verbatim>\<open>HTMLCanvasElement\<close>, whether \<^verbatim>\<open>getContext('2d')\<close> yields a
  context, the answer of each decoding engine on these pixels, the data URL a snapshot of
  them encodes to, and the time the call takes.
\<close>

record media =
  videoWidth :: nat
  videoHeight :: nat
  isCanvas :: bool
  context2d :: bool
  detect :: "error + string list"
  decodeFromCanvas :: "error + string"
  imageBitmap :: "error option"
  readBarcodes :: "error + string list"
  capture :: "error + (string \<times> string) list"
  dataURL :: string
  scan_time :: rat

section \<open>Providers\<close>

text \<open>
  A provider instance: its class and whether its engine handle (\<^verbatim>\<open>detector\<close>,
  \<^verbatim>\<open>codeReader\<close>, \<^verbatim>\<open>readFn\<close>, \<^verbatim>\<open>reader\<close>) is non-null.
\<close>

record provider =
  cls :: provider_class
  handle :: bool

definition new :: "provider_class \<Rightarrow> provider" where
  "new c = \<lparr>cls = c, handle = False\<rparr>"

fun provider_name :: "provider_class \<Rightarrow> string" where
  "provider_name ZXingProvider = ''ZXing''"
| "provider_name BarcodeDetectorProvider = ''BarcodeDetector''"
| "provider_name ZXingWasmProvider = ''ZXing-WASM''"
| "provider_name DynamsoftProvider = ''Dynamsoft''"
| "provider_name Quagga2Provider = ''Quagga2''"

text \<open>
  \<^verbatim>\<open>init()\<close>: the error thrown, if any, and the instance afterwards. A failing
  \<open>init\<close> leaves the handle as it was.
\<close>

definition init :: "env \<Rightarrow> provider \<Rightarrow> error option \<times> provider" where
  "init e p =
     (case cls p of
        BarcodeDetectorProvider \<Rightarrow>
          (if \<not> barcodeDetector_in_window e then (Some BarcodeDetectorNotSupported, p)
           else case engine_setup e BarcodeDetectorProvider of
                  Some err \<Rightarrow> (Some err, p)
                | None \<Rightarrow> (None, p\<lparr>handle := True\<rparr>))
      | ZXingProvider \<Rightarrow>
          (case engine_setup e ZXingProvider of
             Some err \<Rightarrow> (Some err, p)
           | None \<Rightarrow> (None, p\<lparr>handle := True\<rparr>))
      | ZXingWasmProvider \<Rightarrow> (None, p\<lparr>handle := True\<rparr>)
      | DynamsoftProvider \<Rightarrow>
          (case engine_setup e DynamsoftProvider of
             Some err \<Rightarrow> (Some err, p)
           | None \<Rightarrow> (None, p\<lparr>handle := True\<rparr>))
      | Quagga2Provider \<Rightarrow> (Some NotInstalled, p))"

text \<open>
  \<^verbatim>\<open>destroy()\<close> resets the handle; the Quagga2 skeleton holds none. The vendor's own
  \<^verbatim>\<open>reader.destroy()\<close> inside \<^verbatim>\<open>DynamsoftProvider.destroy\<close> is taken to return.
\<close>

definition destroy :: "provider \<Rightarrow> provider" where
  "destroy p = (case cls p of Quagga2Provider \<Rightarrow> p | _ \<Rightarrow> p\<lparr>handle := False\<rparr>)"

text \<open>\<^verbatim>\<open>DynamsoftProvider.decodeCanvas\<close>: PDF417 first, then QR code.\<close>

definition decodeCanvas :: "provider \<Rightarrow> media \<Rightarrow> error + string option" where
  "decodeCanvas p m =
     (if \<not> handle p then Inl (NotInitialized DynamsoftProvider)
      else case capture m of
             Inl err \<Rightarrow> Inl err
           | Inr items \<Rightarrow>
               (case find (\<lambda>item. fst item = ''PDF417'') items of
                  Some pdf417Result \<Rightarrow> Inr (Some (snd pdf417Result))
                | None \<Rightarrow>
                    (case find (\<lambda>item. fst item = ''QRCode'') items of
                       Some qrResult \<Rightarrow> Inr (Some (snd qrResult))
                     | None \<Rightarrow> Inr None)))"

text \<open>
  \<^verbatim>\<open>scanVideoFrame(video, canvas)\<close>: \<open>Inl\<close> is a thrown error, \<open>Inr None\<close> is
  \<^verbatim>\<open>null\<close>, \<open>Inr (Some t)\<close> the decoded text.
\<close>

definition scanVideoFrame :: "provider \<Rightarrow> media \<Rightarrow> error + string option" where
  "scanVideoFrame p m =
     (case cls p of
        BarcodeDetectorProvider \<Rightarrow>
          (if \<not> handle p then Inl (NotInitialized BarcodeDetectorProvider)
           else if videoWidth m = 0 \<or> videoHeight m = 0 then Inr None
           else case detect m of
                  Inl err \<Rightarrow> Inr None
                | Inr [] \<Rightarrow> Inr None
                | Inr (rawValue # _) \<Rightarrow> Inr (Some rawValue))
      | ZXingProvider \<Rightarrow>
          (if \<not> handle p then Inl (NotInitialized ZXingProvider)
           else if videoWidth m = 0 \<or> videoHeight m = 0 then Inr None
           else if \<not> context2d m then Inl CannotGetCanvasContext
           else case decodeFromCanvas m of
                  Inl err \<Rightarrow> Inr None
                | Inr t \<Rightarrow> Inr (Some t))
      | ZXingWasmProvider \<Rightarrow>
          (if \<not> handle p then Inl (NotInitialized ZXingWasmProvider)
           else case imageBitmap m of
                  Some err \<Rightarrow> Inl err
                | None \<Rightarrow>
                    (case readBarcodes m of
                       Inl err \<Rightarrow> Inr None
                     | Inr [] \<Rightarrow> Inr None
                     | Inr (t # _) \<Rightarrow> Inr (Some t)))
      | DynamsoftProvider \<Rightarrow>
          (if \<not> handle p then Inl (NotInitialized DynamsoftProvider)
           else if videoWidth m = 0 then Inr None
           else if \<not> context2d m then Inl CannotGetCanvasContext
           else decodeCanvas p m)
      | Quagga2Provider \<Rightarrow> Inl NotImplemented)"

text \<open>
  \<^verbatim>\<open>scanImage(image)\<close>. \<^verbatim>\<open>ZXingProvider\<close> catches its own canvas-context error and
  returns \<^verbatim>\<open>null\<close>; \<^verbatim>\<open>ZXingWasmProvider\<close> maps an empty text to \<^verbatim>\<open>null\<close> and
  dereferences the context of a canvas it is handed; \<^verbatim>\<open>DynamsoftProvider\<close> builds its
  canvas before \<^verbatim>\<open>decodeCanvas\<close> looks at the reader.
\<close>

definition scanImage :: "provider \<Rightarrow> media \<Rightarrow> error + string option" where
  "scanImage p m =
     (case cls p of
        BarcodeDetectorProvider \<Rightarrow>
          (if \<not> handle p then Inl (NotInitialized BarcodeDetectorProvider)
           else case detect m of
                  Inl err \<Rightarrow> Inr None
                | Inr [] \<Rightarrow> Inr None
                | Inr (rawValue # _) \<Rightarrow> Inr (Some rawValue))
      | ZXingProvider \<Rightarrow>
          (if \<not> handle p then Inl (NotInitialized ZXingProvider)
           else if \<not> isCanvas m \<and> \<not> context2d m then Inr None
           else case decodeFromCanvas m of
                  Inl err \<Rightarrow> Inr None
                | Inr t \<Rightarrow> Inr (Some t))
      | ZXingWasmProvider \<Rightarrow>
          (if \<not> handle p then Inl (NotInitialized ZXingWasmProvider)
           else if \<not> isCanvas m \<and> \<not> context2d m then Inl CannotGetCanvasContext
           else if \<not> context2d m then Inl (External ''TypeError'')
           else case readBarcodes m of
                  Inl err \<Rightarrow> Inr None
                | Inr [] \<Rightarrow> Inr None
                | Inr (t # _) \<Rightarrow> (if t = [] then Inr None else Inr (Some t)))
      | DynamsoftProvider \<Rightarrow>
          (if \<not> isCanvas m \<and> \<not> context2d m then Inl CannotGetCanvasContext
           else decodeCanvas p m)
      | Quagga2Provider \<Rightarrow> Inl NotImplemented)"

section \<open>The shared world: instances, clock, call log, persisted preference\<close>

type_synonym ref = nat

datatype ScannerEventType = EventSuccess | EventError

record ScanResult =
  scan_text :: string
  imageData :: string

datatype payload = SuccessData ScanResult | ErrorData error

text \<open>The calls a claim counts, in the order they were made.\<close>

datatype event =
    EvLoader string
  | EvNew ref
  | EvInit ref
  | EvDestroy ref
  | EvScanVideoFrame ref
  | EvScanImage ref
  | EvNewImage
  | EvGetUserMedia
  | EvTrackStop
  | EvEmit ScannerEventType payload

text \<open>
  Provider objects live in \<open>store\<close>; a reference is an index into it, so that the
  registry's cache, the registry's current provider and the scan engine's own field can
  name the same object. \<open>clock\<close> is \<^verbatim>\<open>performance.now()\<close>, \<open>localStorage\<close> the item
  \<^verbatim>\<open>'barcode-scanner-provider'\<close>.
\<close>

record world =
  store :: "provider list"
  clock :: rat
  trace :: "event list"
  localStorage :: "string option"

definition record_call :: "event \<Rightarrow> world \<Rightarrow> world" where
  "record_call ev w = w\<lparr>trace := trace w @ [ev]\<rparr>"

definition elapse :: "rat \<Rightarrow> world \<Rightarrow> world" where
  "elapse d w = w\<lparr>clock := clock w + d\<rparr>"

definition alloc :: "provider_class \<Rightarrow> world \<Rightarrow> ref \<times> world" where
  "alloc c w = (length (store w), record_call (EvNew (length (store w))) (w\<lparr>store := store w @ [new c]\<rparr>))"

definition call_init :: "env \<Rightarrow> ref \<Rightarrow> world \<Rightarrow> error option \<times> world" where
  "call_init e r w =
     (let p = store w ! r; res = init e p
      in (fst res, elapse (init_time e (cls p)) (record_call (EvInit r) (w\<lparr>store := (store w)[r := snd res]\<rparr>))))"

definition call_destroy :: "ref \<Rightarrow> world \<Rightarrow> world" where
  "call_destroy r w = record_call (EvDestroy r) (w\<lparr>store := (store w)[r := destroy (store w ! r)]\<rparr>)"

definition call_scanVideoFrame :: "ref \<Rightarrow> media \<Rightarrow> world \<Rightarrow> (error + string option) \<times> world" where
  "call_scanVideoFrame r m w =
     (scanVideoFrame (store w ! r) m, elapse (scan_time m) (record_call (EvScanVideoFrame r) w))"

definition call_scanImage :: "ref \<Rightarrow> media \<Rightarrow> world \<Rightarrow> (error + string option) \<times> world" where
  "call_scanImage r m w =
     (scanImage (store w ! r) m, elapse (scan_time m) (record_call (EvScanImage r) w))"

section \<open>ProviderRegistry\<close>

record ProviderInfo =
  name :: string
  displayName :: string
  description :: string
  loader :: "env \<Rightarrow> error + provider_class"

text \<open>
  The two \<^verbatim>\<open>Map\<close>s are association lists in insertion order (\<^verbatim>\<open>Map.set\<close> is
  \<open>AList.update\<close>, \<^verbatim>\<open>Map.get\<close> is \<open>map_of\<close>); \<open>currentProvider\<close> is a reference or
  \<^verbatim>\<open>null\<close>.
\<close>

record ProviderRegistry =
  providers :: "(string \<times> ProviderInfo) list"
  loadedProviders :: "(string \<times> ref) list"
  currentProvider :: "ref option"

text \<open>The four default loaders: import the module, return its class.\<close>

definition import_class :: "provider_class \<Rightarrow> env \<Rightarrow> error + provider_class" where
  "import_class c e = (case module_import e c of Some err \<Rightarrow> Inl err | None \<Rightarrow> Inr c)"

definition registerDefaultProviders :: "(string \<times> ProviderInfo) list" where
  "registerDefaultProviders =
     AList.update ''dynamsoft''
       \<lparr>name = ''dynamsoft'', displayName = ''Dynamsoft SDK'',
        description = ''Commercial SDK with industry-leading accuracy (license required)'',
        loader = import_class DynamsoftProvider\<rparr>
     (AList.update ''zxing-wasm''
       \<lparr>name = ''zxing-wasm'', displayName = ''ZXing (WASM)'',
        description = ''Pure WebAssembly build of ZXing - high performance'',
        loader = import_class ZXingWasmProvider\<rparr>
     (AList.update ''barcode-detector''
       \<lparr>name = ''barcode-detector'', displayName = ''BarcodeDetector (Native)'',
        description = ''Native browser API for barcode detection (Chrome/Edge only) - fastest performance'',
        loader = import_class BarcodeDetectorProvider\<rparr>
     (AList.update ''zxing''
       \<lparr>name = ''zxing'', displayName = ''ZXing'',
        description = ''Fast and reliable barcode scanner supporting QR codes and PDF417'',
        loader = import_class ZXingProvider\<rparr>
      [])))"

definition getInstance :: ProviderRegistry where
  "getInstance = \<lparr>providers = registerDefaultProviders, loadedProviders = [], currentProvider = None\<rparr>"

definition getAvailableProviders :: "ProviderRegistry \<Rightarrow> ProviderInfo list" where
  "getAvailableProviders reg = map snd (providers reg)"

text \<open>
  \<^verbatim>\<open>loadProvider\<close>: the cache first, then the catalog, then loader, constructor and
  \<^verbatim>\<open>init()\<close>; the instance is cached only after \<^verbatim>\<open>init()\<close> returned.
\<close>

fun loadProvider :: "env \<Rightarrow> string \<Rightarrow> ProviderRegistry \<times> world \<Rightarrow> (error + ref) \<times> ProviderRegistry \<times> world" where
  "loadProvider e providerName (reg, w) =
     (case map_of (loadedProviders reg) providerName of
        Some provider \<Rightarrow> (Inr provider, reg, w)
      | None \<Rightarrow>
          (case map_of (providers reg) providerName of
             None \<Rightarrow> (Inl (UnknownProvider providerName), reg, w)
           | Some providerInfo \<Rightarrow>
               (case loader providerInfo e of
                  Inl err \<Rightarrow> (Inl err, reg, record_call (EvLoader providerName) w)
                | Inr ProviderClass \<Rightarrow>
                    (let w1 = elapse (import_time e ProviderClass) (record_call (EvLoader providerName) w);
                         a = alloc ProviderClass w1;
                         i = call_init e (fst a) (snd a)
                     in case fst i of
                          Some err \<Rightarrow> (Inl err, reg, snd i)
                        | None \<Rightarrow>
                            (Inr (fst a),
                             reg\<lparr>loadedProviders := AList.update providerName (fst a) (loadedProviders reg)\<rparr>,
                             snd i)))))"

text \<open>
  \<^verbatim>\<open>setCurrentProvider\<close>: destroy the current provider, load the requested one, make it
  current, store the preference (a throwing \<^verbatim>\<open>localStorage\<close> is logged and ignored).
\<close>

fun setCurrentProvider :: "env \<Rightarrow> string \<Rightarrow> ProviderRegistry \<times> world \<Rightarrow> (error + ref) \<times> ProviderRegistry \<times> world" where
  "setCurrentProvider e providerName (reg, w) =
     (let w1 = (case currentProvider reg of Some c \<Rightarrow> call_destroy c w | None \<Rightarrow> w)
      in case loadProvider e providerName (reg, w1) of
           (Inl err, reg', w2) \<Rightarrow> (Inl err, reg', w2)
         | (Inr r, reg', w2) \<Rightarrow>
             (Inr r, reg'\<lparr>currentProvider := Some r\<rparr>,
              if storage_fails e then w2 else w2\<lparr>localStorage := Some providerName\<rparr>))"

definition getCurrentProvider :: "ProviderRegistry \<Rightarrow> ref option" where
  "getCurrentProvider reg = currentProvider reg"

definition getPreferredProvider :: "env \<Rightarrow> world \<Rightarrow> string" where
  "getPreferredProvider e w =
     (if storage_fails e then ''zxing''
      else case localStorage w of
             None \<Rightarrow> ''zxing''
           | Some s \<Rightarrow> (if s = [] then ''zxing'' else s))"

definition initializeDefaultProvider :: "env \<Rightarrow> ProviderRegistry \<times> world \<Rightarrow> (error + ref) \<times> ProviderRegistry \<times> world" where
  "initializeDefaultProvider e rw = setCurrentProvider e (getPreferredProvider e (snd rw)) rw"

definition cleanup :: "ProviderRegistry \<times> world \<Rightarrow> ProviderRegistry \<times> world" where
  "cleanup rw =
     (let reg = fst rw; w = snd rw;
          w1 = (case currentProvider reg of Some c \<Rightarrow> call_destroy c w | None \<Rightarrow> w);
          w2 = fold (\<lambda>entry. call_destroy (snd entry)) (loadedProviders reg) w1
      in (reg\<lparr>currentProvider := None, loadedProviders := []\<rparr>, w2))"

section \<open>Files and promises\<close>

text \<open>
  What a call sees of an uploaded \<^verbatim>\<open>File\<close>: its name, MIME type and size, how
  \<^verbatim>\<open>FileReader.readAsDataURL\<close> ends (\<open>ReadEmpty\<close>: \<^verbatim>\<open>onload\<close> with an empty result, after
  which nothing is scheduled), whether the browser decodes the data (\<^verbatim>\<open>img.onload\<close> or
  \<^verbatim>\<open>img.onerror\<close>), the image as the engines see it, and whether the two canvases
  \<^verbatim>\<open>scanImageFile\<close> creates yield a 2D context.
\<close>

datatype read_outcome = ReadError | ReadEmpty | ReadData

record File =
  fileName :: string
  fileType :: string
  fileSize :: nat
  readAsDataURL :: read_outcome
  decodes :: bool
  image :: media
  canvas_context :: bool
  thumbnail_context :: bool

datatype 'a promise = Resolved 'a | Rejected error | Pending

section \<open>BenchmarkRunner\<close>

record BenchmarkResult =
  providerName :: string
  success :: bool
  duration :: rat
  error :: "string option"
  result :: "string option"

record Summary =
  fastestProvider :: "string option"
  averageDuration :: rat
  successRate :: rat

record BenchmarkReport =
  testName :: string
  results :: "BenchmarkResult list"
  summary :: Summary

text \<open>\<^verbatim>\<open>scanResult || undefined\<close>: \<^verbatim>\<open>null\<close> and the empty string give no result.\<close>

definition or_undefined :: "string option \<Rightarrow> string option" where
  "or_undefined scanResult = (case scanResult of None \<Rightarrow> None | Some t \<Rightarrow> (if t = [] then None else Some t))"

text \<open>
  \<^verbatim>\<open>generateReport\<close>. \<^verbatim>\<open>reduce\<close> without an initial value starts from the first
  element and is called only on a non-empty list.
\<close>

definition generateReport :: "string \<Rightarrow> BenchmarkResult list \<Rightarrow> BenchmarkReport" where
  "generateReport tn rs =
     (let successfulResults = filter success rs;
          fastest =
            (case successfulResults of
               [] \<Rightarrow> None
             | r # rest \<Rightarrow>
                 Some (providerName
                   (foldl (\<lambda>fastest current. if duration current < duration fastest then current else fastest)
                      r rest)));
          average =
            (if length successfulResults > 0
             then foldl (\<lambda>sum r. sum + duration r) 0 successfulResults / of_nat (length successfulResults)
             else 0);
          rate =
            (if length rs > 0 then of_nat (length successfulResults) / of_nat (length rs) else 0)
      in \<lparr>testName = tn, results = rs,
          summary = \<lparr>fastestProvider = fastest, averageDuration = average, successRate = rate\<rparr>\<rparr>)"

text \<open>\<^verbatim>\<open>BenchmarkRunner.loadImage\<close>.\<close>

definition loadImage :: "File \<Rightarrow> media promise" where
  "loadImage f =
     (case readAsDataURL f of
        ReadError \<Rightarrow> Rejected ReadFileFailed
      | ReadEmpty \<Rightarrow> Pending
      | ReadData \<Rightarrow> (if decodes f then Resolved (image f) else Rejected LoadImageFailed))"

text \<open>
  The body of the \<^verbatim>\<open>for (const providerInfo of providers)\<close> loop of
  \<^verbatim>\<open>benchmarkImageScan\<close>: \<open>startTime\<close> is read before \<^verbatim>\<open>loadProvider\<close>, and the
  \<^verbatim>\<open>catch\<close> branch records \<^verbatim>\<open>performance.now() - performance.now()\<close>.
\<close>

definition imageScanAttempt :: "env \<Rightarrow> media \<Rightarrow> ProviderInfo \<Rightarrow> ProviderRegistry \<times> world \<Rightarrow> BenchmarkResult \<times> ProviderRegistry \<times> world" where
  "imageScanAttempt e img providerInfo rw =
     (let startTime = clock (snd rw)
      in case loadProvider e (name providerInfo) rw of
           (Inl err, reg1, w1) \<Rightarrow>
             (\<lparr>providerName = displayName providerInfo, success = False,
               duration = clock w1 - clock w1, error = Some (message err), result = None\<rparr>, reg1, w1)
         | (Inr provider, reg1, w1) \<Rightarrow>
             (case call_scanImage provider img w1 of
                (Inl err, w2) \<Rightarrow>
                  (\<lparr>providerName = displayName providerInfo, success = False,
                    duration = clock w2 - clock w2, error = Some (message err), result = None\<rparr>, reg1, w2)
              | (Inr scanResult, w2) \<Rightarrow>
                  (\<lparr>providerName = displayName providerInfo, success = (scanResult \<noteq> None),
                    duration = clock w2 - startTime, error = None, result = or_undefined scanResult\<rparr>,
                   reg1, w2)))"

fun imageScanLoop :: "env \<Rightarrow> media \<Rightarrow> ProviderInfo list \<Rightarrow> BenchmarkResult list \<Rightarrow> ProviderRegistry \<times> world \<Rightarrow> BenchmarkResult list \<times> ProviderRegistry \<times> world" where
  "imageScanLoop e img [] rs rw = (rs, rw)"
| "imageScanLoop e img (providerInfo # rest) rs rw =
     (case imageScanAttempt e img providerInfo rw of
        (r, rw') \<Rightarrow> imageScanLoop e img rest (rs @ [r]) rw')"

definition benchmarkImageScan :: "env \<Rightarrow> File \<Rightarrow> ProviderRegistry \<times> world \<Rightarrow> BenchmarkReport promise \<times> ProviderRegistry \<times> world" where
  "benchmarkImageScan e imageFile rw =
     (case loadImage imageFile of
        Rejected err \<Rightarrow> (Rejected err, rw)
      | Pending \<Rightarrow> (Pending, rw)
      | Resolved img \<Rightarrow>
          (case imageScanLoop e img (getAvailableProviders (fst rw)) [] rw of
             (rs, rw') \<Rightarrow> (Resolved (generateReport (''Image Scan - '' @ fileName imageFile) rs), rw')))"

text \<open>Decimal rendering of a count, as a template literal prints it.\<close>

fun show_nat :: "nat \<Rightarrow> string" where
  "show_nat n =
     (if n < 10 then [char_of (48 + n)]
      else show_nat (n div 10) @ [char_of (48 + n mod 10)])"

text \<open>
  The inner \<^verbatim>\<open>for (let i = 0; i < iterations; i++)\<close> loop of \<^verbatim>\<open>benchmarkVideoFrame\<close>:
  \<open>n\<close> iterations are left, \<open>video k\<close> is the frame the k-th call of the run sees. Here
  \<open>startTime\<close> is read after the provider was loaded.
\<close>

fun videoIterations :: "ref \<Rightarrow> string \<Rightarrow> (nat \<Rightarrow> media) \<Rightarrow> nat \<Rightarrow> nat \<Rightarrow> BenchmarkResult list \<Rightarrow> world \<Rightarrow> BenchmarkResult list \<times> world" where
  "videoIterations provider dn video 0 k rs w = (rs, w)"
| "videoIterations provider dn video (Suc n) k rs w =
     (let startTime = clock w
      in case call_scanVideoFrame provider (video k) w of
           (Inl err, w1) \<Rightarrow>
             videoIterations provider dn video n (Suc k)
               (rs @ [\<lparr>providerName = dn, success = False, duration = 0,
                        error = Some (message err), result = None\<rparr>]) w1
         | (Inr scanResult, w1) \<Rightarrow>
             videoIterations provider dn video n (Suc k)
               (rs @ [\<lparr>providerName = dn, success = (scanResult \<noteq> None), duration = clock w1 - startTime,
                        error = None, result = or_undefined scanResult\<rparr>])
               (elapse 10 w1))"

definition videoFrameAttempt :: "env \<Rightarrow> (nat \<Rightarrow> media) \<Rightarrow> nat \<Rightarrow> nat \<Rightarrow> ProviderInfo \<Rightarrow> ProviderRegistry \<times> world \<Rightarrow> BenchmarkResult \<times> ProviderRegistry \<times> world" where
  "videoFrameAttempt e video iterations k providerInfo rw =
     (case loadProvider e (name providerInfo) rw of
        (Inl err, reg1, w1) \<Rightarrow>
          (\<lparr>providerName = displayName providerInfo, success = False, duration = 0,
            error = Some (message err), result = None\<rparr>, reg1, w1)
      | (Inr provider, reg1, w1) \<Rightarrow>
          (case videoIterations provider (displayName providerInfo) video iterations k [] w1 of
             (providerResults, w2) \<Rightarrow>
               (let successfulResults = filter success providerResults;
                    average =
                      (if length successfulResults > 0
                       then foldl (\<lambda>sum r. sum + duration r) 0 successfulResults / of_nat (length successfulResults)
                       else 0)
                in (\<lparr>providerName = displayName providerInfo,
                     success = (length successfulResults > 0),
                     duration = average,
                     error = (if length successfulResults = 0 then Some ''All iterations failed'' else None),
                     result = (if length successfulResults > 0
                               then Some (show_nat (length successfulResults) @ ''/'' @ show_nat iterations @ '' successful'')
                               else None)\<rparr>,
                    reg1, w2))))"

fun videoFrameLoop :: "env \<Rightarrow> (nat \<Rightarrow> media) \<Rightarrow> nat \<Rightarrow> nat \<Rightarrow> ProviderInfo list \<Rightarrow> BenchmarkResult list \<Rightarrow> ProviderRegistry \<times> world \<Rightarrow> BenchmarkResult list \<times> ProviderRegistry \<times> world" where
  "videoFrameLoop e video iterations k [] rs rw = (rs, rw)"
| "videoFrameLoop e video iterations k (providerInfo # rest) rs rw =
     (case videoFrameAttempt e video iterations k providerInfo rw of
        (r, rw') \<Rightarrow> videoFrameLoop e video iterations (k + iterations) rest (rs @ [r]) rw')"

definition benchmarkVideoFrame :: "env \<Rightarrow> (nat \<Rightarrow> media) \<Rightarrow> nat \<Rightarrow> ProviderRegistry \<times> world \<Rightarrow> BenchmarkReport \<times> ProviderRegistry \<times> world" where
  "benchmarkVideoFrame e video iterations rw =
     (case videoFrameLoop e video iterations 0 (getAvailableProviders (fst rw)) [] rw of
        (rs, rw') \<Rightarrow>
          (generateReport (''Video Frame Scan ('' @ show_nat iterations @ '' iterations)'') rs, rw'))"

section \<open>BarcodeScanner\<close>

text \<open>
  A listener is seen through whether it returns (\<open>None\<close>) or throws. The scan engine's
  own \<^verbatim>\<open>currentProvider\<close> field is \<open>scanner_currentProvider\<close>; \<open>stream\<close> is the number
  of tracks of the active \<^verbatim>\<open>MediaStream\<close>, \<open>srcObject\<close> whether the preview element has
  one attached. \<open>pending_loops\<close> is not a field of the class: it is the number of
  \<^verbatim>\<open>startScanningLoop\<close> invocations the event loop still holds for this engine, one per
  sampling loop that has not returned (called by \<^verbatim>\<open>start()\<close>, or scheduled by
  \<^verbatim>\<open>setTimeout\<close>). Nothing in the class cancels such an invocation.
\<close>

type_synonym listener = "payload \<Rightarrow> error option"

record BarcodeScanner =
  scanner_currentProvider :: "ref option"
  isScanning :: bool
  stream :: "nat option"
  srcObject :: bool
  eventListeners :: "ScannerEventType \<Rightarrow> listener list"
  pending_loops :: nat

definition BarcodeScanner_new :: BarcodeScanner where
  "BarcodeScanner_new =
     \<lparr>scanner_currentProvider = None, isScanning = False, stream = None, srcObject = False,
      eventListeners = (\<lambda>ev. []), pending_loops = 0\<rparr>"

definition on :: "ScannerEventType \<Rightarrow> listener \<Rightarrow> BarcodeScanner \<Rightarrow> BarcodeScanner" where
  "on ev callback sc = sc\<lparr>eventListeners := (eventListeners sc)(ev := eventListeners sc ev @ [callback])\<rparr>"

text \<open>\<^verbatim>\<open>listeners.forEach(callback => callback(data))\<close>: the first throwing listener ends it.\<close>

fun notify :: "listener list \<Rightarrow> payload \<Rightarrow> error option" where
  "notify [] d = None"
| "notify (callback # rest) d = (case callback d of Some err \<Rightarrow> Some err | None \<Rightarrow> notify rest d)"

definition emit :: "ScannerEventType \<Rightarrow> payload \<Rightarrow> BarcodeScanner \<Rightarrow> world \<Rightarrow> error option \<times> world" where
  "emit ev d sc w = (notify (eventListeners sc ev) d, record_call (EvEmit ev d) w)"

text \<open>What the camera answers to one \<^verbatim>\<open>start()\<close>.\<close>

record camera =
  getUserMedia :: "error + nat"
  playback :: "error option"

text \<open>
  \<^verbatim>\<open>stop()\<close> clears the flag and releases the stream; it clears no timer, so the pending
  loop invocations stay.
\<close>

definition stop :: "BarcodeScanner \<times> world \<Rightarrow> BarcodeScanner \<times> world" where
  "stop sw =
     (let sc = fst sw; w = snd sw
      in (sc\<lparr>isScanning := False, stream := None, srcObject := False\<rparr>,
          case stream sc of None \<Rightarrow> w | Some n \<Rightarrow> (record_call EvTrackStop ^^ n) w))"

text \<open>
  \<^verbatim>\<open>start()\<close>. Its last statement calls \<^verbatim>\<open>startScanningLoop()\<close> without awaiting it:
  one more loop invocation is pending, and runs as \<open>startScanningLoop\<close> below. The
  \<^verbatim>\<open>catch\<close> block emits the error event and rethrows.
\<close>

definition start_failed :: "error \<Rightarrow> BarcodeScanner \<times> ProviderRegistry \<times> world \<Rightarrow> error option \<times> BarcodeScanner \<times> ProviderRegistry \<times> world" where
  "start_failed err s =
     (case s of (sc, reg, w) \<Rightarrow>
        (case emit EventError (ErrorData err) sc w of
           (Some err', w') \<Rightarrow> (Some err', sc, reg, w')
         | (None, w') \<Rightarrow> (Some err, sc, reg, w')))"

definition start_camera :: "camera \<Rightarrow> BarcodeScanner \<times> ProviderRegistry \<times> world \<Rightarrow> error option \<times> BarcodeScanner \<times> ProviderRegistry \<times> world" where
  "start_camera cam s =
     (case s of (sc, reg, w) \<Rightarrow>
        (case getUserMedia cam of
           Inl err \<Rightarrow> start_failed err (sc, reg, record_call EvGetUserMedia w)
         | Inr tracks \<Rightarrow>
             (let sc1 = sc\<lparr>stream := Some tracks, srcObject := True\<rparr>
              in case playback cam of
                   Some err \<Rightarrow> start_failed err (sc1, reg, record_call EvGetUserMedia w)
                 | None \<Rightarrow>
                     (None, sc1\<lparr>isScanning := True, pending_loops := Suc (pending_loops sc1)\<rparr>, reg,
                      record_call EvGetUserMedia w))))"

definition start :: "env \<Rightarrow> camera \<Rightarrow> BarcodeScanner \<times> ProviderRegistry \<times> world \<Rightarrow> error option \<times> BarcodeScanner \<times> ProviderRegistry \<times> world" where
  "start e cam s =
     (case s of (sc, reg, w) \<Rightarrow>
        (if isScanning sc then (None, sc, reg, w)
         else case scanner_currentProvider sc of
                Some r \<Rightarrow> start_camera cam (sc, reg, w)
              | None \<Rightarrow>
                  (case initializeDefaultProvider e (reg, w) of
                     (Inl err, reg', w') \<Rightarrow> start_failed err (sc, reg', w')
                   | (Inr r, reg', w') \<Rightarrow>
                       start_camera cam (sc\<lparr>scanner_currentProvider := Some r\<rparr>, reg', w'))))"

definition scanFrame :: "media \<Rightarrow> BarcodeScanner \<Rightarrow> world \<Rightarrow> (error + string option) \<times> world" where
  "scanFrame m sc w =
     (case scanner_currentProvider sc of
        None \<Rightarrow> (Inl NoProviderInitialized, w)
      | Some r \<Rightarrow> call_scanVideoFrame r m w)"

text \<open>
  \<^verbatim>\<open>captureFrame()\<close>: throws without a 2D context, otherwise the JPEG data URL of the
  downscaled frame (the canvas sizing decides only the pixels behind that URL).
\<close>

definition captureFrame :: "media \<Rightarrow> error + string" where
  "captureFrame m = (if \<not> context2d m then Inl CannotGetCanvasContext else Inr (dataURL m))"

text \<open>
  The body of \<^verbatim>\<open>startScanningLoop\<close> while scanning: \<open>True\<close> when it returned after
  emitting, \<open>False\<close> when it fell through to \<^verbatim>\<open>setTimeout\<close>. The \<^verbatim>\<open>try\<close> block covers
  \<^verbatim>\<open>scanFrame\<close>, \<^verbatim>\<open>captureFrame\<close> and \<^verbatim>\<open>emit\<close>; \<^verbatim>\<open>if (result)\<close> is false for
  \<^verbatim>\<open>null\<close> and for the empty string.
\<close>

definition iteration :: "media \<Rightarrow> BarcodeScanner \<Rightarrow> world \<Rightarrow> bool \<times> world" where
  "iteration m sc w =
     (case scanFrame m sc w of
        (Inl err, w1) \<Rightarrow> (False, elapse 100 w1)
      | (Inr None, w1) \<Rightarrow> (False, elapse 100 w1)
      | (Inr (Some t), w1) \<Rightarrow>
          (if t = [] then (False, elapse 100 w1)
           else case captureFrame m of
                  Inl err \<Rightarrow> (False, elapse 100 w1)
                | Inr img \<Rightarrow>
                    (case emit EventSuccess (SuccessData \<lparr>scan_text = t, imageData = img\<rparr>) sc w1 of
                       (Some err, w2) \<Rightarrow> (False, elapse 100 w2)
                     | (None, w2) \<Rightarrow> (True, w2))))"

text \<open>
  One invocation of \<^verbatim>\<open>startScanningLoop()\<close>, seeing frame \<open>m\<close>: it returns when the flag
  is cleared or after a success event (its loop is over: one pending invocation fewer), and
  otherwise schedules itself again (still pending).
\<close>

definition startScanningLoop :: "media \<Rightarrow> BarcodeScanner \<times> world \<Rightarrow> BarcodeScanner \<times> world" where
  "startScanningLoop m s =
     (case s of (sc, w) \<Rightarrow>
        (if \<not> isScanning sc then (sc\<lparr>pending_loops := pending_loops sc - 1\<rparr>, w)
         else case iteration m sc w of
                (True, w') \<Rightarrow> (sc\<lparr>pending_loops := pending_loops sc - 1\<rparr>, w')
              | (False, w') \<Rightarrow> (sc, w')))"

text \<open>
  The engine in the browser's event loop: a timer fires and one pending invocation runs on
  the current frame (nothing runs when none is pending), or the application calls
  \<^verbatim>\<open>stop()\<close> or \<^verbatim>\<open>start()\<close>. A \<^verbatim>\<open>start()\<close> after a \<^verbatim>\<open>stop()\<close>, before the timer of the
  old loop fired, leaves two loops running.
\<close>

datatype step = Tick media | StopCall | StartCall camera

fun event_loop :: "env \<Rightarrow> step list \<Rightarrow> BarcodeScanner \<times> ProviderRegistry \<times> world \<Rightarrow> BarcodeScanner \<times> ProviderRegistry \<times> world" where
  "event_loop e [] s = s"
| "event_loop e (Tick m # rest) (sc, reg, w) =
     (if pending_loops sc = 0 then event_loop e rest (sc, reg, w)
      else case startScanningLoop m (sc, w) of
             (sc', w') \<Rightarrow> event_loop e rest (sc', reg, w'))"
| "event_loop e (StopCall # rest) (sc, reg, w) =
     (case stop (sc, w) of (sc', w') \<Rightarrow> event_loop e rest (sc', reg, w'))"
| "event_loop e (StartCall cam # rest) (sc, reg, w) =
     event_loop e rest (snd (start e cam (sc, reg, w)))"

text \<open>
  \<^verbatim>\<open>scanImageFile(file)\<close>: the type check comes before anything is constructed; every
  error inside \<^verbatim>\<open>img.onload\<close> is rejected as "no barcode found".
\<close>

definition scanLoadedImage :: "env \<Rightarrow> File \<Rightarrow> ref \<Rightarrow> BarcodeScanner \<times> ProviderRegistry \<times> world \<Rightarrow> ScanResult promise \<times> BarcodeScanner \<times> ProviderRegistry \<times> world" where
  "scanLoadedImage e f r s =
     (case s of (sc, reg, w) \<Rightarrow>
        (case call_scanImage r (image f) w of
           (Inl err, w1) \<Rightarrow> (Rejected NoBarcodeFound, sc, reg, w1)
         | (Inr None, w1) \<Rightarrow> (Rejected NoBarcodeFound, sc, reg, w1)
         | (Inr (Some t), w1) \<Rightarrow>
             (if t = [] then (Rejected NoBarcodeFound, sc, reg, w1)
              else if thumbnail_context f
              then (Resolved \<lparr>scan_text = t, imageData = dataURL (image f)\<rparr>, sc, reg, w1)
              else (Rejected CannotCreateThumbnail, sc, reg, w1))))"

definition scanImageFile :: "env \<Rightarrow> File \<Rightarrow> BarcodeScanner \<times> ProviderRegistry \<times> world \<Rightarrow> ScanResult promise \<times> BarcodeScanner \<times> ProviderRegistry \<times> world" where
  "scanImageFile e f s =
     (case s of (sc, reg, w) \<Rightarrow>
        (if \<not> prefix ''image/'' (fileType f) then (Rejected InvalidImageFile, sc, reg, w)
         else if \<not> canvas_context f then (Rejected CannotGetCanvasContext, sc, reg, record_call EvNewImage w)
         else case readAsDataURL f of
                ReadError \<Rightarrow> (Rejected FailedToReadFile, sc, reg, record_call EvNewImage w)
              | ReadEmpty \<Rightarrow> (Pending, sc, reg, record_call EvNewImage w)
              | ReadData \<Rightarrow>
                  (if \<not> decodes f then (Rejected FailedToLoadImage, sc, reg, record_call EvNewImage w)
                   else case scanner_currentProvider sc of
                          Some r \<Rightarrow> scanLoadedImage e f r (sc, reg, record_call EvNewImage w)
                        | None \<Rightarrow>
                            (case initializeDefaultProvider e (reg, record_call EvNewImage w) of
                               (Inl err, reg', w') \<Rightarrow> (Rejected NoBarcodeFound, sc, reg', w')
                             | (Inr r, reg', w') \<Rightarrow>
                                 scanLoadedImage e f r (sc\<lparr>scanner_currentProvider := Some r\<rparr>, reg', w')))))"

definition setProvider :: "env \<Rightarrow> string \<Rightarrow> camera \<Rightarrow> BarcodeScanner \<times> ProviderRegistry \<times> world \<Rightarrow> error option \<times> BarcodeScanner \<times> ProviderRegistry \<times> world" where
  "setProvider e newName cam s =
     (case s of (sc, reg, w) \<Rightarrow>
        (let wasScanning = isScanning sc;
             sw = (if wasScanning then stop (sc, w) else (sc, w))
         in case setCurrentProvider e newName (reg, snd sw) of
              (Inl err, reg', w') \<Rightarrow> (Some err, fst sw, reg', w')
            | (Inr r, reg', w') \<Rightarrow>
                (if wasScanning then start e cam ((fst sw)\<lparr>scanner_currentProvider := Some r\<rparr>, reg', w')
                 else (None, (fst sw)\<lparr>scanner_currentProvider := Some r\<rparr>, reg', w'))))"

definition scanner_getCurrentProvider :: "BarcodeScanner \<Rightarrow> ref option" where
  "scanner_getCurrentProvider sc = scanner_currentProvider sc"

definition scanner_cleanup :: "BarcodeScanner \<times> ProviderRegistry \<times> world \<Rightarrow> BarcodeScanner \<times> ProviderRegistry \<times> world" where
  "scanner_cleanup s =
     (case s of (sc, reg, w) \<Rightarrow>
        (case stop (sc, w) of (sc', w') \<Rightarrow>
           (case cleanup (reg, w') of (reg', w'') \<Rightarrow> (sc', reg', w''))))"

section \<open>Reachable registries and concrete inputs\<close>

text \<open>
  The cache is filled by \<open>loadProvider\<close> only, after the catalog lookup: every cached name
  is a catalog name.
\<close>

definition cache_in_catalog :: "ProviderRegistry \<Rightarrow> bool" where
  "cache_in_catalog reg =
     list_all (\<lambda>entry. map_of (providers reg) (fst entry) \<noteq> None) (loadedProviders reg)"

text \<open>
  A browser in which every module loads and every engine starts (importing takes 50 ms,
  initialising 30 ms), one without the native \<^verbatim>\<open>BarcodeDetector\<close>, one in which no module can be
  fetched, and one in which loading
  and initialising take no measurable time.
\<close>

definition env_ok :: env where
  "env_ok =
     \<lparr>module_import = (\<lambda>c. None), barcodeDetector_in_window = True,
      engine_setup = (\<lambda>c. None), storage_fails = False,
      import_time = (\<lambda>c. 50), init_time = (\<lambda>c. 30)\<rparr>"

definition env_no_detector :: env where
  "env_no_detector = env_ok\<lparr>barcodeDetector_in_window := False\<rparr>"

definition env_offline :: env where
  "env_offline = env_ok\<lparr>module_import := (\<lambda>c. Some (External ''Failed to fetch dynamically imported module''))\<rparr>"

definition env_instant :: env where
  "env_instant = env_no_detector\<lparr>import_time := (\<lambda>c. 0), init_time := (\<lambda>c. 0)\<rparr>"

text \<open>
  A 640 x 480 frame without a code, the same frame showing a QR code of text \<open>t\<close>, and a
  frame seen where no canvas yields a 2D context. A scan of any of them takes 10 ms.
\<close>

definition no_code :: media where
  "no_code =
     \<lparr>videoWidth = 640, videoHeight = 480, isCanvas = False, context2d = True,
      detect = Inr [], decodeFromCanvas = Inl (External ''NotFoundException''),
      imageBitmap = None, readBarcodes = Inr [], capture = Inr [],
      dataURL = ''data:image/jpeg;base64,'', scan_time = 10\<rparr>"

definition qr_code :: "string \<Rightarrow> media" where
  "qr_code t =
     no_code\<lparr>detect := Inr [t], decodeFromCanvas := Inr t, readBarcodes := Inr [t],
             capture := Inr [(''QRCode'', t)]\<rparr>"

definition no_context :: media where
  "no_context = no_code\<lparr>context2d := False\<rparr>"

definition world0 :: world where
  "world0 = \<lparr>store = [], clock = 0, trace = [], localStorage = None\<rparr>"

text \<open>An uploaded PNG showing \<open>m\<close>, and a text file.\<close>

definition png_of :: "media \<Rightarrow> File" where
  "png_of m =
     \<lparr>fileName = ''code.png'', fileType = ''image/png'', fileSize = 2048,
      readAsDataURL = ReadData, decodes = True, image = m,
      canvas_context = True, thumbnail_context = True\<rparr>"

definition text_file :: File where
  "text_file = (png_of no_code)\<lparr>fileName := ''notes.txt'', fileType := ''text/plain''\<rparr>"

text \<open>The registry after \<^verbatim>\<open>setCurrentProvider('zxing')\<close> in a fresh page.\<close>

definition zxing_current :: "ProviderRegistry \<times> world" where
  "zxing_current = snd (setCurrentProvider env_ok ''zxing'' (getInstance, world0))"

text \<open>... and after a following \<^verbatim>\<open>setCurrentProvider('zxing-wasm')\<close>.\<close>

definition wasm_current :: "ProviderRegistry \<times> world" where
  "wasm_current = snd (setCurrentProvider env_ok ''zxing-wasm'' zxing_current)"

text \<open>
  A catalog of two providers for the benchmark scenario: \<open>A\<close> is the ZXing class, \<open>B\<close> the
  native detector, whose \<^verbatim>\<open>init()\<close> throws where the browser has no \<^verbatim>\<open>BarcodeDetector\<close>;
  and two result entries of that shape.
\<close>

definition result_A :: BenchmarkResult where
  "result_A = \<lparr>providerName = ''A'', success = True, duration = 10, error = None, result = Some ''hello''\<rparr>"

definition result_B :: BenchmarkResult where
  "result_B = \<lparr>providerName = ''B'', success = False, duration = 0, error = Some ''boom'', result = None\<rparr>"

definition registry_AB :: ProviderRegistry where
  "registry_AB =
     \<lparr>providers =
        [(''a'', \<lparr>name = ''a'', displayName = ''A'', description = [], loader = import_class ZXingProvider\<rparr>),
         (''b'', \<lparr>name = ''b'', displayName = ''B'', description = [], loader = import_class BarcodeDetectorProvider\<rparr>)],
      loadedProviders = [], currentProvider = None\<rparr>"

text \<open>
  What a frame scan of provider \<open>p\<close> gives the loop's \<^verbatim>\<open>if (result)\<close>: a non-empty
  text, or nothing when the scan throws, returns \<^verbatim>\<open>null\<close> or returns the empty string.
\<close>

definition frame_text :: "provider \<Rightarrow> media \<Rightarrow> string option" where
  "frame_text p m =
     (case scanVideoFrame p m of
        Inl err \<Rightarrow> None
      | Inr None \<Rightarrow> None
      | Inr (Some t) \<Rightarrow> (if t = [] then None else Some t))"

text \<open>The number of \<^verbatim>\<open>scanVideoFrame\<close> calls and of success events in the call log.\<close>

definition scan_calls :: "world \<Rightarrow> nat" where
  "scan_calls w = length (filter (\<lambda>ev. case ev of EvScanVideoFrame r \<Rightarrow> True | _ \<Rightarrow> False) (trace w))"

definition success_events :: "world \<Rightarrow> nat" where
  "success_events w =
     length (filter (\<lambda>ev. case ev of EvEmit EventSuccess d \<Rightarrow> True | _ \<Rightarrow> False) (trace w))"

text \<open>
  A camera that grants one video track, and the application after a first \<^verbatim>\<open>start()\<close> in
  a fresh page (the default provider is ZXing), with one success listener that returns.
\<close>

definition camera_ok :: camera where
  "camera_ok = \<lparr>getUserMedia = Inr 1, playback = None\<rparr>"

definition live :: "BarcodeScanner \<times> ProviderRegistry \<times> world" where
  "live = snd (start env_ok camera_ok (on EventSuccess (\<lambda>d. None) BarcodeScanner_new, getInstance, world0))"




section \<open>Theorems\<close>

declare loadProvider.simps [simp del] setCurrentProvider.simps [simp del]

section \<open>Facts about providers\<close>

lemma init_ok_handle: "fst (init e p) = None \<Longrightarrow> handle (snd (init e p))"
  by (auto simp: init_def split: provider_class.splits if_splits option.splits)

lemma init_cls: "cls (snd (init e p)) = cls p"
  by (auto simp: init_def split: provider_class.splits if_splits option.splits)

lemma destroy_cls: "cls (destroy p) = cls p"
  by (auto simp: destroy_def split: provider_class.splits)

lemma destroy_handle: "cls p \<noteq> Quagga2Provider \<Longrightarrow> \<not> handle (destroy p)"
  by (auto simp: destroy_def split: provider_class.splits)

lemma scanVideoFrame_uninitialized:
  "\<not> handle p \<Longrightarrow> cls p \<noteq> Quagga2Provider \<Longrightarrow> scanVideoFrame p m = Inl (NotInitialized (cls p))"
  by (auto simp: scanVideoFrame_def split: provider_class.splits)

lemma scanImage_uninitialized:
  "\<not> handle p \<Longrightarrow> cls p \<noteq> Quagga2Provider \<Longrightarrow> cls p \<noteq> DynamsoftProvider \<or> isCanvas m \<or> context2d m \<Longrightarrow>
   scanImage p m = Inl (NotInitialized (cls p))"
  by (auto simp: scanImage_def decodeCanvas_def split: provider_class.splits)

section \<open>Facts about the registry\<close>

lemma cached_in_catalog:
  assumes "cache_in_catalog reg" and "map_of (providers reg) n = None"
  shows "map_of (loadedProviders reg) n = None"
proof (cases "map_of (loadedProviders reg) n")
  case None
  then show ?thesis .
next
  case (Some r)
  then have "(n, r) \<in> set (loadedProviders reg)"
    by (rule map_of_SomeD)
  with assms(1) have "map_of (providers reg) n \<noteq> None"
    by (auto simp: cache_in_catalog_def list_all_iff)
  with assms(2) show ?thesis
    by simp
qed

lemma loadProvider_fresh:
  assumes "map_of (loadedProviders reg) n = None" and "map_of (providers reg) n = Some info"
    and "loader info e = Inr c" and "fst (init e (new c)) = None"
  shows "loadProvider e n (reg, w) =
           (Inr (length (store w)),
            reg\<lparr>loadedProviders := AList.update n (length (store w)) (loadedProviders reg)\<rparr>,
            w\<lparr>store := store w @ [snd (init e (new c))],
              clock := clock w + import_time e c + init_time e c,
              trace := trace w @ [EvLoader n, EvNew (length (store w)), EvInit (length (store w))]\<rparr>)"
  using assms
  by (simp add: loadProvider.simps Let_def call_init_def alloc_def record_call_def elapse_def new_def nth_append)

lemma loadProvider_init_fails:
  assumes "map_of (loadedProviders reg) n = None" and "map_of (providers reg) n = Some info"
    and "loader info e = Inr c" and "fst (init e (new c)) = Some err"
  shows "fst (loadProvider e n (reg, w)) = Inl err \<and> fst (snd (loadProvider e n (reg, w))) = reg"
  using assms
  by (simp add: loadProvider.simps Let_def call_init_def alloc_def record_call_def elapse_def)

lemma zxing_current_eq:
  "zxing_current =
     (getInstance\<lparr>loadedProviders := [(''zxing'', 0)], currentProvider := Some 0\<rparr>,
      \<lparr>store = [\<lparr>cls = ZXingProvider, handle = True\<rparr>], clock = 80,
       trace = [EvLoader ''zxing'', EvNew 0, EvInit 0], localStorage = Some ''zxing''\<rparr>)"
  by (simp add: loadProvider.simps setCurrentProvider.simps zxing_current_def getInstance_def registerDefaultProviders_def env_ok_def world0_def
      import_class_def Let_def alloc_def call_init_def init_def new_def record_call_def elapse_def)

lemma wasm_current_eq:
  "wasm_current =
     (getInstance\<lparr>loadedProviders := [(''zxing'', 0), (''zxing-wasm'', 1)], currentProvider := Some 1\<rparr>,
      \<lparr>store = [\<lparr>cls = ZXingProvider, handle = False\<rparr>, \<lparr>cls = ZXingWasmProvider, handle = True\<rparr>],
       clock = 160,
       trace = [EvLoader ''zxing'', EvNew 0, EvInit 0, EvDestroy 0, EvLoader ''zxing-wasm'', EvNew 1, EvInit 1],
       localStorage = Some ''zxing-wasm''\<rparr>)"
  by (simp add: loadProvider.simps setCurrentProvider.simps wasm_current_def zxing_current_eq getInstance_def registerDefaultProviders_def env_ok_def
      import_class_def Let_def alloc_def call_init_def call_destroy_def destroy_def init_def new_def
      record_call_def elapse_def)

lemma getInstance_cache_in_catalog: "cache_in_catalog getInstance"
  by (simp add: cache_in_catalog_def getInstance_def)

lemma loadProvider_cache_in_catalog:
  assumes "cache_in_catalog reg"
  shows "cache_in_catalog (fst (snd (loadProvider e n (reg, w))))"
proof -
  have "cache_in_catalog (reg\<lparr>loadedProviders := AList.update n r (loadedProviders reg)\<rparr>)"
    if known: "map_of (providers reg) n = Some info" for r info
    unfolding cache_in_catalog_def list_all_iff
  proof
    fix entry
    assume "entry \<in> set (loadedProviders (reg\<lparr>loadedProviders := AList.update n r (loadedProviders reg)\<rparr>))"
    then have "fst entry \<in> fst ` set (AList.update n r (loadedProviders reg))"
      by simp
    then have "fst entry = n \<or> fst entry \<in> fst ` set (loadedProviders reg)"
      by (simp add: dom_update)
    then show "map_of (providers (reg\<lparr>loadedProviders := AList.update n r (loadedProviders reg)\<rparr>)) (fst entry) \<noteq> None"
      using assms known by (auto simp: cache_in_catalog_def list_all_iff)
  qed
  then show ?thesis
    using assms
    by (auto simp: loadProvider.simps Let_def split: option.splits sum.splits)
qed

lemma setCurrentProvider_cache_in_catalog:
  assumes "cache_in_catalog reg"
  shows "cache_in_catalog (fst (snd (setCurrentProvider e n (reg, w))))"
proof -
  let ?w1 = "case currentProvider reg of Some c \<Rightarrow> call_destroy c w | None \<Rightarrow> w"
  obtain res reg' w2 where l: "loadProvider e n (reg, ?w1) = (res, reg', w2)"
    by (cases "loadProvider e n (reg, ?w1)") auto
  have "cache_in_catalog reg'"
    using loadProvider_cache_in_catalog [OF assms, of e n ?w1] l by simp
  then show ?thesis
    by (cases res) (simp_all add: setCurrentProvider.simps l cache_in_catalog_def)
qed

lemma setCurrentProvider_keeps_cache:
  assumes "map_of (loadedProviders reg) n = Some r"
  shows "map_of (loadedProviders (fst (snd (setCurrentProvider e n' (reg, w))))) n = Some r"
proof -
  let ?w1 = "case currentProvider reg of Some c \<Rightarrow> call_destroy c w | None \<Rightarrow> w"
  have "map_of (loadedProviders (fst (snd (loadProvider e n' (reg, ?w1))))) n = Some r"
    using assms
    by (auto simp: loadProvider.simps Let_def update_conv' split: option.splits sum.splits)
  then show ?thesis
    by (cases "loadProvider e n' (reg, ?w1)" rule: prod_cases3)
      (auto simp: setCurrentProvider.simps split: sum.splits)
qed

section \<open>Loading a provider\<close>

text \<open>
  C4. In a registry whose cached names are catalog names, \<open>loadProvider name\<close> returns a
  cached instance as it is, changing neither the registry nor the world (no \<^verbatim>\<open>init()\<close>
  call); fails with the unknown-provider error, changing nothing, when the name is not in
  the catalog; and otherwise invokes the loader, constructs a new instance, calls
  \<^verbatim>\<open>init()\<close>, caches the initialised instance under the name and returns it. When
  \<^verbatim>\<open>init()\<close> (or the loader) throws, the error reaches the caller and the registry, its
  cache included, is unchanged.
\<close>

theorem loadProvider_postconditions:
  assumes "cache_in_catalog reg"
  shows
    "(\<forall>r. map_of (loadedProviders reg) n = Some r \<longrightarrow> loadProvider e n (reg, w) = (Inr r, reg, w))
     \<and> (map_of (providers reg) n = None \<longrightarrow>
          loadProvider e n (reg, w) = (Inl (UnknownProvider n), reg, w))
     \<and> (\<forall>info c. map_of (loadedProviders reg) n = None \<and> map_of (providers reg) n = Some info
            \<and> loader info e = Inr c \<and> fst (init e (new c)) = None \<longrightarrow>
          (case loadProvider e n (reg, w) of
             (res, reg', w') \<Rightarrow>
               res = Inr (length (store w))
               \<and> map_of (loadedProviders reg') n = Some (length (store w))
               \<and> providers reg' = providers reg \<and> currentProvider reg' = currentProvider reg
               \<and> store w' = store w @ [snd (init e (new c))]
               \<and> handle (store w' ! length (store w))
               \<and> trace w' = trace w @ [EvLoader n, EvNew (length (store w)), EvInit (length (store w))]))
     \<and> (\<forall>info c err. map_of (loadedProviders reg) n = None \<and> map_of (providers reg) n = Some info
            \<and> loader info e = Inr c \<and> fst (init e (new c)) = Some err \<longrightarrow>
          fst (loadProvider e n (reg, w)) = Inl err \<and> fst (snd (loadProvider e n (reg, w))) = reg)
     \<and> (\<forall>info err. map_of (loadedProviders reg) n = None \<and> map_of (providers reg) n = Some info
            \<and> loader info e = Inl err \<longrightarrow>
          fst (loadProvider e n (reg, w)) = Inl err \<and> fst (snd (loadProvider e n (reg, w))) = reg)"
proof -
  have cached: "\<forall>r. map_of (loadedProviders reg) n = Some r \<longrightarrow> loadProvider e n (reg, w) = (Inr r, reg, w)"
    by (simp add: loadProvider.simps)
  have unknown: "map_of (providers reg) n = None \<longrightarrow>
      loadProvider e n (reg, w) = (Inl (UnknownProvider n), reg, w)"
  proof
    assume u: "map_of (providers reg) n = None"
    with assms have "map_of (loadedProviders reg) n = None"
      by (rule cached_in_catalog)
    with u show "loadProvider e n (reg, w) = (Inl (UnknownProvider n), reg, w)"
      by (simp add: loadProvider.simps)
  qed
  have fresh: "\<forall>info c. map_of (loadedProviders reg) n = None \<and> map_of (providers reg) n = Some info
        \<and> loader info e = Inr c \<and> fst (init e (new c)) = None \<longrightarrow>
      (case loadProvider e n (reg, w) of
         (res, reg', w') \<Rightarrow>
           res = Inr (length (store w))
           \<and> map_of (loadedProviders reg') n = Some (length (store w))
           \<and> providers reg' = providers reg \<and> currentProvider reg' = currentProvider reg
           \<and> store w' = store w @ [snd (init e (new c))]
           \<and> handle (store w' ! length (store w))
           \<and> trace w' = trace w @ [EvLoader n, EvNew (length (store w)), EvInit (length (store w))])"
  proof (intro allI impI)
    fix info c
    assume h: "map_of (loadedProviders reg) n = None \<and> map_of (providers reg) n = Some info
      \<and> loader info e = Inr c \<and> fst (init e (new c)) = None"
    then have eq: "loadProvider e n (reg, w) =
           (Inr (length (store w)),
            reg\<lparr>loadedProviders := AList.update n (length (store w)) (loadedProviders reg)\<rparr>,
            w\<lparr>store := store w @ [snd (init e (new c))],
              clock := clock w + import_time e c + init_time e c,
              trace := trace w @ [EvLoader n, EvNew (length (store w)), EvInit (length (store w))]\<rparr>)"
      by (intro loadProvider_fresh) auto
    from h have "handle (snd (init e (new c)))"
      by (intro init_ok_handle) simp
    then show "case loadProvider e n (reg, w) of
             (res, reg', w') \<Rightarrow>
               res = Inr (length (store w))
               \<and> map_of (loadedProviders reg') n = Some (length (store w))
               \<and> providers reg' = providers reg \<and> currentProvider reg' = currentProvider reg
               \<and> store w' = store w @ [snd (init e (new c))]
               \<and> handle (store w' ! length (store w))
               \<and> trace w' = trace w @ [EvLoader n, EvNew (length (store w)), EvInit (length (store w))]"
      unfolding eq by (simp add: update_conv')
  qed
  have init_fails: "\<forall>info c err. map_of (loadedProviders reg) n = None \<and> map_of (providers reg) n = Some info
        \<and> loader info e = Inr c \<and> fst (init e (new c)) = Some err \<longrightarrow>
      fst (loadProvider e n (reg, w)) = Inl err \<and> fst (snd (loadProvider e n (reg, w))) = reg"
    using loadProvider_init_fails by blast
  have loader_fails: "\<forall>info err. map_of (loadedProviders reg) n = None \<and> map_of (providers reg) n = Some info
        \<and> loader info e = Inl err \<longrightarrow>
      fst (loadProvider e n (reg, w)) = Inl err \<and> fst (snd (loadProvider e n (reg, w))) = reg"
    by (simp add: loadProvider.simps)
  from cached unknown fresh init_fails loader_fails show ?thesis
    by (intro conjI)
qed


theorem loadProvider_postconditions_witness:
  "cache_in_catalog getInstance \<and> cache_in_catalog (fst zxing_current)
   \<and> loadProvider env_ok ''zxing'' zxing_current = (Inr 0, zxing_current)
   \<and> loadProvider env_ok ''unknown'' (getInstance, world0) = (Inl (UnknownProvider ''unknown''), getInstance, world0)
   \<and> (case loadProvider env_ok ''zxing'' (getInstance, world0) of
         (res, reg', w') \<Rightarrow>
           res = Inr 0 \<and> map_of (loadedProviders reg') ''zxing'' = Some 0 \<and> handle (store w' ! 0)
           \<and> trace w' = [EvLoader ''zxing'', EvNew 0, EvInit 0])
   \<and> fst (loadProvider env_no_detector ''barcode-detector'' (getInstance, world0)) = Inl BarcodeDetectorNotSupported
   \<and> fst (snd (loadProvider env_no_detector ''barcode-detector'' (getInstance, world0))) = getInstance
   \<and> fst (loadProvider env_offline ''zxing'' (getInstance, world0)) = Inl (External ''Failed to fetch dynamically imported module'')
   \<and> fst (snd (loadProvider env_offline ''zxing'' (getInstance, world0))) = getInstance"
proof -
  have c0: "cache_in_catalog getInstance"
    by (rule getInstance_cache_in_catalog)
  have c1: "cache_in_catalog (fst zxing_current)"
    by (simp add: zxing_current_eq cache_in_catalog_def getInstance_def registerDefaultProviders_def)
  have zx: "map_of (providers getInstance) ''zxing'' =
      Some \<lparr>name = ''zxing'', displayName = ''ZXing'',
        description = ''Fast and reliable barcode scanner supporting QR codes and PDF417'',
        loader = import_class ZXingProvider\<rparr>"
    by (simp add: getInstance_def registerDefaultProviders_def)
  have bd: "map_of (providers getInstance) ''barcode-detector'' =
      Some \<lparr>name = ''barcode-detector'', displayName = ''BarcodeDetector (Native)'',
        description = ''Native browser API for barcode detection (Chrome/Edge only) - fastest performance'',
        loader = import_class BarcodeDetectorProvider\<rparr>"
    by (simp add: getInstance_def registerDefaultProviders_def)
  have un: "map_of (providers getInstance) ''unknown'' = None"
    by (simp add: getInstance_def registerDefaultProviders_def)
  have empty: "map_of (loadedProviders getInstance) k = None" for k
    by (simp add: getInstance_def)
  have cached: "map_of (loadedProviders (fst zxing_current)) ''zxing'' = Some 0"
    by (simp add: zxing_current_eq)
  have i1: "fst (init env_ok (new ZXingProvider)) = None"
    by (simp add: init_def new_def env_ok_def)
  have i2: "fst (init env_no_detector (new BarcodeDetectorProvider)) = Some BarcodeDetectorNotSupported"
    by (simp add: init_def new_def env_no_detector_def env_ok_def)
  have l1: "import_class ZXingProvider env_ok = Inr ZXingProvider"
    by (simp add: import_class_def env_ok_def)
  have l2: "import_class BarcodeDetectorProvider env_no_detector = Inr BarcodeDetectorProvider"
    by (simp add: import_class_def env_no_detector_def env_ok_def)
  have l3: "import_class ZXingProvider env_offline = Inl (External ''Failed to fetch dynamically imported module'')"
    by (simp add: import_class_def env_offline_def env_ok_def)
  have w0: "store world0 = []" "trace world0 = []"
    by (simp_all add: world0_def)
  note t1 = loadProvider_postconditions [OF c1, of "''zxing''" env_ok "snd zxing_current"]
  note t0 = loadProvider_postconditions [OF c0, of _ _ world0]
  have a: "loadProvider env_ok ''zxing'' zxing_current = (Inr 0, zxing_current)"
    using t1 cached by simp
  have b: "loadProvider env_ok ''unknown'' (getInstance, world0) = (Inl (UnknownProvider ''unknown''), getInstance, world0)"
    using t0 [of "''unknown''" env_ok] un by simp
  have c: "case loadProvider env_ok ''zxing'' (getInstance, world0) of
         (res, reg', w') \<Rightarrow>
           res = Inr 0 \<and> map_of (loadedProviders reg') ''zxing'' = Some 0 \<and> handle (store w' ! 0)
           \<and> trace w' = [EvLoader ''zxing'', EvNew 0, EvInit 0]"
    using t0 [of "''zxing''" env_ok] zx empty i1 l1 w0 by (auto split: prod.splits)
  have d: "fst (loadProvider env_no_detector ''barcode-detector'' (getInstance, world0)) = Inl BarcodeDetectorNotSupported
     \<and> fst (snd (loadProvider env_no_detector ''barcode-detector'' (getInstance, world0))) = getInstance"
    using t0 [of "''barcode-detector''" env_no_detector] bd empty i2 l2 by simp
  have e: "fst (loadProvider env_offline ''zxing'' (getInstance, world0)) = Inl (External ''Failed to fetch dynamically imported module'')
     \<and> fst (snd (loadProvider env_offline ''zxing'' (getInstance, world0))) = getInstance"
    using t0 [of "''zxing''" env_offline] zx empty l3 by simp
  from c0 c1 a b c d e show ?thesis
    by (intro conjI) simp_all
qed

section \<open>Switching the current provider\<close>

text \<open>
  C1 (the code differs). After \<^verbatim>\<open>setCurrentProvider('zxing')\<close> and then
  \<^verbatim>\<open>setCurrentProvider('zxing-wasm')\<close>, the ZXing instance 0 has been destroyed, but its
  cache entry is still there: \<^verbatim>\<open>loadProvider('zxing')\<close> returns instance 0 again, without
  constructing or initialising anything, and that instance holds no engine. (No
  \<open>setCurrentProvider\<close> ever removes a cache entry: \<open>setCurrentProvider_keeps_cache\<close>.)
\<close>

theorem load_after_switch_returns_destroyed:
  "fst (setCurrentProvider env_ok ''zxing'' (getInstance, world0)) = Inr 0
   \<and> fst (setCurrentProvider env_ok ''zxing-wasm'' zxing_current) = Inr 1
   \<and> EvDestroy 0 \<in> set (trace (snd wasm_current))
   \<and> loadProvider env_ok ''zxing'' wasm_current = (Inr 0, wasm_current)
   \<and> \<not> handle (store (snd wasm_current) ! 0)
   \<and> map_of (loadedProviders (fst wasm_current)) ''zxing'' = Some 0"
proof -
  have a: "fst (setCurrentProvider env_ok ''zxing'' (getInstance, world0)) = Inr 0"
    by (simp add: loadProvider.simps setCurrentProvider.simps getInstance_def registerDefaultProviders_def env_ok_def world0_def
      import_class_def Let_def alloc_def call_init_def init_def new_def record_call_def elapse_def)
  have b: "fst (setCurrentProvider env_ok ''zxing-wasm'' zxing_current) = Inr 1"
    by (simp add: loadProvider.simps setCurrentProvider.simps zxing_current_eq getInstance_def registerDefaultProviders_def env_ok_def
      import_class_def Let_def alloc_def call_init_def call_destroy_def destroy_def init_def new_def
      record_call_def elapse_def)
  show ?thesis
    using a b by (simp add: loadProvider.simps wasm_current_eq)
qed

lemma setCurrentProvider_unknown:
  assumes "cache_in_catalog reg" and "map_of (providers reg) u = None"
    and "currentProvider reg = Some c"
  shows "setCurrentProvider e u (reg, w) = (Inl (UnknownProvider u), reg, call_destroy c w)"
proof -
  have "map_of (loadedProviders reg) u = None"
    using assms(1,2) by (rule cached_in_catalog)
  then show ?thesis
    using assms(2,3) by (simp add: setCurrentProvider.simps loadProvider.simps)
qed

text \<open>
  C2 (the code differs). With ZXing current and initialised,
  \<^verbatim>\<open>setCurrentProvider('unknown')\<close> fails with the unknown-provider error and leaves the
  current-provider reference at instance 0, but it has called \<^verbatim>\<open>destroy()\<close> on that
  instance before looking the name up: the current provider no longer holds an engine.
  (For every unknown name and every current provider: \<open>setCurrentProvider_unknown\<close>.)
\<close>

theorem setCurrentProvider_unknown_destroys_current:
  "currentProvider (fst zxing_current) = Some 0 \<and> handle (store (snd zxing_current) ! 0)
   \<and> (case setCurrentProvider env_ok ''unknown'' zxing_current of
         (res, reg', w') \<Rightarrow>
           res = Inl (UnknownProvider ''unknown'') \<and> currentProvider reg' = Some 0
           \<and> \<not> handle (store w' ! 0) \<and> trace w' = trace (snd zxing_current) @ [EvDestroy 0])"
  by (simp add: loadProvider.simps setCurrentProvider.simps zxing_current_eq getInstance_def
      registerDefaultProviders_def call_destroy_def destroy_def record_call_def)

section \<open>Scanning with a provider that holds no engine\<close>

text \<open>
  C3 (the code differs). \<open>scanVideoFrame\<close> of every registered class, and \<open>scanImage\<close> of
  three of them, check the engine handle first (\<open>scanVideoFrame_uninitialized\<close>,
  \<open>scanImage_uninitialized\<close>). \<^verbatim>\<open>DynamsoftProvider.scanImage\<close> builds a canvas first: on an
  image element, where no 2D context is available, a Dynamsoft provider that was never
  initialised, or was initialised and destroyed, throws the canvas-context error instead
  of the not-initialised error.
\<close>

theorem dynamsoft_scanImage_before_init:
  "\<not> handle (new DynamsoftProvider)
   \<and> scanImage (new DynamsoftProvider) no_context = Inl CannotGetCanvasContext
   \<and> fst (init env_ok (new DynamsoftProvider)) = None
   \<and> scanImage (destroy (snd (init env_ok (new DynamsoftProvider)))) no_context = Inl CannotGetCanvasContext
   \<and> scanVideoFrame (new DynamsoftProvider) no_context = Inl (NotInitialized DynamsoftProvider)
   \<and> scanImage (new ZXingWasmProvider) no_context = Inl (NotInitialized ZXingWasmProvider)"
  by (simp add: new_def scanImage_def scanVideoFrame_def no_context_def no_code_def init_def destroy_def env_ok_def)



section \<open>Benchmarking\<close>

lemma loadProvider_currentProvider:
  "currentProvider (fst (snd (loadProvider e n (reg, w)))) = currentProvider reg"
  by (simp add: loadProvider.simps Let_def split: option.splits sum.splits)

lemma imageScanAttempt_currentProvider:
  "currentProvider (fst (snd (imageScanAttempt e img info (reg, w)))) = currentProvider reg"
proof -
  obtain res reg1 w1 where l: "loadProvider e (name info) (reg, w) = (res, reg1, w1)"
    by (cases "loadProvider e (name info) (reg, w)") auto
  have "currentProvider reg1 = currentProvider reg"
    using loadProvider_currentProvider [of e "name info" reg w] l by simp
  then show ?thesis
    by (simp add: imageScanAttempt_def l split: sum.splits prod.splits)
qed

lemma imageScanLoop_currentProvider:
  "currentProvider (fst (snd (imageScanLoop e img infos rs (reg, w)))) = currentProvider reg"
proof (induction infos arbitrary: rs reg w)
  case Nil
  show ?case by simp
next
  case (Cons info infos)
  obtain r reg1 w1 where a: "imageScanAttempt e img info (reg, w) = (r, reg1, w1)"
    by (cases "imageScanAttempt e img info (reg, w)") auto
  have "currentProvider reg1 = currentProvider reg"
    using imageScanAttempt_currentProvider [of e img info reg w] a by simp
  with Cons.IH [of "rs @ [r]" reg1 w1] show ?case
    by (simp add: a)
qed

lemma videoFrameAttempt_currentProvider:
  "currentProvider (fst (snd (videoFrameAttempt e video n k info (reg, w)))) = currentProvider reg"
proof -
  obtain res reg1 w1 where l: "loadProvider e (name info) (reg, w) = (res, reg1, w1)"
    by (cases "loadProvider e (name info) (reg, w)") auto
  have "currentProvider reg1 = currentProvider reg"
    using loadProvider_currentProvider [of e "name info" reg w] l by simp
  then show ?thesis
    by (simp add: videoFrameAttempt_def l Let_def split: sum.splits prod.splits)
qed

lemma videoFrameLoop_currentProvider:
  "currentProvider (fst (snd (videoFrameLoop e video n k infos rs (reg, w)))) = currentProvider reg"
proof (induction infos arbitrary: k rs reg w)
  case Nil
  show ?case by simp
next
  case (Cons info infos)
  obtain r reg1 w1 where a: "videoFrameAttempt e video n k info (reg, w) = (r, reg1, w1)"
    by (cases "videoFrameAttempt e video n k info (reg, w)") auto
  have "currentProvider reg1 = currentProvider reg"
    using videoFrameAttempt_currentProvider [of e video n k info reg w] a by simp
  with Cons.IH [of "k + n" "rs @ [r]" reg1 w1] show ?case
    by (simp add: a)
qed

text \<open>
  C5. For every file, video, iteration count, registry and world, the registry's current
  provider after \<open>benchmarkImageScan\<close> and after \<open>benchmarkVideoFrame\<close> is the one before
  the run.
\<close>

theorem benchmark_keeps_currentProvider:
  "getCurrentProvider (fst (snd (benchmarkImageScan e imageFile (reg, w)))) = getCurrentProvider reg
   \<and> getCurrentProvider (fst (snd (benchmarkVideoFrame e video iterations (reg, w)))) = getCurrentProvider reg"
proof
  show "getCurrentProvider (fst (snd (benchmarkImageScan e imageFile (reg, w)))) = getCurrentProvider reg"
  proof (cases "loadImage imageFile")
    case (Resolved img)
    obtain rs reg' w' where l: "imageScanLoop e img (getAvailableProviders reg) [] (reg, w) = (rs, reg', w')"
      by (cases "imageScanLoop e img (getAvailableProviders reg) [] (reg, w)") auto
    have "currentProvider reg' = currentProvider reg"
      using imageScanLoop_currentProvider [of e img "getAvailableProviders reg" "[]" reg w] l by simp
    then show ?thesis
      by (simp add: benchmarkImageScan_def getCurrentProvider_def Resolved l)
  qed (simp_all add: benchmarkImageScan_def getCurrentProvider_def)
  show "getCurrentProvider (fst (snd (benchmarkVideoFrame e video iterations (reg, w)))) = getCurrentProvider reg"
  proof -
    obtain rs reg' w' where l:
      "videoFrameLoop e video iterations 0 (getAvailableProviders reg) [] (reg, w) = (rs, reg', w')"
      by (cases "videoFrameLoop e video iterations 0 (getAvailableProviders reg) [] (reg, w)") auto
    have "currentProvider reg' = currentProvider reg"
      using videoFrameLoop_currentProvider [of e video iterations 0 "getAvailableProviders reg" "[]" reg w] l
      by simp
    then show ?thesis
      by (simp add: benchmarkVideoFrame_def getCurrentProvider_def l)
  qed
qed

lemma sum_durations: "foldl (\<lambda>sum r. sum + duration r) a xs = a + sum_list (map duration xs)"
  by (induction xs arbitrary: a) simp_all

lemma fastest_is_minimal:
  "foldl (\<lambda>fastest current. if duration current < duration fastest then current else fastest) r rest
     \<in> set (r # rest)
   \<and> (\<forall>x \<in> set (r # rest).
        duration (foldl (\<lambda>fastest current. if duration current < duration fastest then current else fastest) r rest)
          \<le> duration x)"
proof (induction rest arbitrary: r)
  case Nil
  show ?case by simp
next
  case (Cons c rest)
  show ?case
  proof (cases "duration c < duration r")
    case True
    with Cons.IH [of c] show ?thesis by auto
  next
    case False
    with Cons.IH [of r] show ?thesis by auto
  qed
qed



lemmas eval_defs =
  loadProvider.simps setCurrentProvider.simps getInstance_def registerDefaultProviders_def
  env_ok_def env_no_detector_def env_instant_def world0_def import_class_def Let_def alloc_def
  call_init_def call_destroy_def call_scanImage_def call_scanVideoFrame_def destroy_def init_def
  new_def record_call_def elapse_def scanImage_def scanVideoFrame_def decodeCanvas_def qr_code_def
  no_code_def png_of_def imageScanAttempt_def benchmarkImageScan_def loadImage_def
  getAvailableProviders_def generateReport_def registry_AB_def or_undefined_def

lemma generateReport_none_succeeded:
  assumes "filter success rs = []"
  shows "fastestProvider (summary (generateReport tn rs)) = None
    \<and> averageDuration (summary (generateReport tn rs)) = 0"
  using assms by (simp add: generateReport_def Let_def)

lemma generateReport_some_succeeded:
  assumes "filter success rs \<noteq> []"
  shows "(\<exists>r \<in> set (filter success rs).
            fastestProvider (summary (generateReport tn rs)) = Some (providerName r)
            \<and> (\<forall>x \<in> set (filter success rs). duration r \<le> duration x))
    \<and> averageDuration (summary (generateReport tn rs)) =
          sum_list (map duration (filter success rs)) / of_nat (length (filter success rs))"
proof -
  obtain r rest where ok: "filter success rs = r # rest"
    using assms by (cases "filter success rs") auto
  let ?pick = "\<lambda>fastest current :: BenchmarkResult. if duration current < duration fastest then current else fastest"
  have fp: "fastestProvider (summary (generateReport tn rs)) = Some (providerName (foldl ?pick r rest))"
    by (simp add: generateReport_def Let_def ok)
  have "foldl ?pick r rest \<in> set (r # rest) \<and> (\<forall>x \<in> set (r # rest). duration (foldl ?pick r rest) \<le> duration x)"
    by (rule fastest_is_minimal)
  then have first: "\<exists>m \<in> set (filter success rs).
      fastestProvider (summary (generateReport tn rs)) = Some (providerName m)
      \<and> (\<forall>x \<in> set (filter success rs). duration m \<le> duration x)"
    unfolding fp ok by blast
  have "averageDuration (summary (generateReport tn rs)) =
      sum_list (map duration (filter success rs)) / of_nat (length (filter success rs))"
    by (simp add: generateReport_def Let_def sum_durations ok)
  with first show ?thesis
    by (intro conjI)
qed

lemma generateReport_successRate:
  "successRate (summary (generateReport tn rs)) =
     (if rs = [] then 0 else of_nat (length (filter success rs)) / of_nat (length rs))"
  by (simp add: generateReport_def Let_def)

lemma scenario_AB:
  "fst (benchmarkImageScan env_instant (png_of (qr_code ''hello'')) (registry_AB, world0)) =
     Resolved \<lparr>testName = ''Image Scan - code.png'',
       results = [\<lparr>providerName = ''A'', success = True, duration = 10, error = None, result = Some ''hello''\<rparr>,
                  \<lparr>providerName = ''B'', success = False, duration = 0,
                    error = Some ''BarcodeDetector API not supported in this browser'', result = None\<rparr>],
       summary = \<lparr>fastestProvider = Some ''A'', averageDuration = 10, successRate = 1 / 2\<rparr>\<rparr>"
  by (simp add: eval_defs)

text \<open>
  C6. For every list of per-provider results, the report keeps the list, its fastest
  provider is the name of a successful result of minimal duration (none when no result
  succeeded), its average duration is the arithmetic mean over the successful results
  (0 when there is none) and its success rate is successes over attempts (0 for an empty
  list, where the quotient is undefined). In the scenario with provider A succeeding in
  10 ms (its scan takes 10 ms, loading it takes no measurable time) and provider B throwing
  in \<^verbatim>\<open>init()\<close>, the report of \<open>benchmarkImageScan\<close> has
  success rate 1/2, fastest provider A, average duration 10, and B's entry is a failure
  with its error message filled in.
\<close>

theorem generateReport_summary:
  "results (generateReport tn rs) = rs
   \<and> (filter success rs = [] \<longrightarrow>
        fastestProvider (summary (generateReport tn rs)) = None
        \<and> averageDuration (summary (generateReport tn rs)) = 0)
   \<and> (filter success rs \<noteq> [] \<longrightarrow>
        (\<exists>r \<in> set (filter success rs).
            fastestProvider (summary (generateReport tn rs)) = Some (providerName r)
            \<and> (\<forall>x \<in> set (filter success rs). duration r \<le> duration x))
        \<and> averageDuration (summary (generateReport tn rs)) =
             sum_list (map duration (filter success rs)) / of_nat (length (filter success rs)))
   \<and> (rs \<noteq> [] \<longrightarrow>
        successRate (summary (generateReport tn rs)) =
          of_nat (length (filter success rs)) / of_nat (length rs))
   \<and> (rs = [] \<longrightarrow> successRate (summary (generateReport tn rs)) = 0)
   \<and> (case fst (benchmarkImageScan env_instant (png_of (qr_code ''hello'')) (registry_AB, world0)) of
         Resolved report \<Rightarrow>
           map providerName (results report) = [''A'', ''B'']
           \<and> map success (results report) = [True, False]
           \<and> duration (results report ! 0) = 10
           \<and> error (results report ! 1) = Some ''BarcodeDetector API not supported in this browser''
           \<and> successRate (summary report) = 1 / 2
           \<and> fastestProvider (summary report) = Some ''A''
           \<and> averageDuration (summary report) = 10
       | Rejected err \<Rightarrow> False
       | Pending \<Rightarrow> False)"
proof -
  have a: "results (generateReport tn rs) = rs"
    by (simp add: generateReport_def Let_def)
  have b: "filter success rs = [] \<longrightarrow>
        fastestProvider (summary (generateReport tn rs)) = None
        \<and> averageDuration (summary (generateReport tn rs)) = 0"
    using generateReport_none_succeeded by blast
  have c: "filter success rs \<noteq> [] \<longrightarrow>
        (\<exists>r \<in> set (filter success rs).
            fastestProvider (summary (generateReport tn rs)) = Some (providerName r)
            \<and> (\<forall>x \<in> set (filter success rs). duration r \<le> duration x))
        \<and> averageDuration (summary (generateReport tn rs)) =
             sum_list (map duration (filter success rs)) / of_nat (length (filter success rs))"
    using generateReport_some_succeeded by blast
  have d: "rs \<noteq> [] \<longrightarrow>
        successRate (summary (generateReport tn rs)) =
          of_nat (length (filter success rs)) / of_nat (length rs)"
    by (simp add: generateReport_successRate)
  have e: "rs = [] \<longrightarrow> successRate (summary (generateReport tn rs)) = 0"
    by (simp add: generateReport_successRate)
  have f: "case fst (benchmarkImageScan env_instant (png_of (qr_code ''hello'')) (registry_AB, world0)) of
         Resolved report \<Rightarrow>
           map providerName (results report) = [''A'', ''B'']
           \<and> map success (results report) = [True, False]
           \<and> duration (results report ! 0) = 10
           \<and> error (results report ! 1) = Some ''BarcodeDetector API not supported in this browser''
           \<and> successRate (summary report) = 1 / 2
           \<and> fastestProvider (summary report) = Some ''A''
           \<and> averageDuration (summary report) = 10
       | Rejected err \<Rightarrow> False
       | Pending \<Rightarrow> False"
    by (simp add: scenario_AB)
  from a b c d e f show ?thesis
    by (intro conjI)
qed

theorem generateReport_summary_witness:
  "filter success [result_A, result_B] \<noteq> [] \<and> [result_A, result_B] \<noteq> []
   \<and> fastestProvider (summary (generateReport ''t'' [result_A, result_B])) = Some ''A''
   \<and> averageDuration (summary (generateReport ''t'' [result_A, result_B])) = 10
   \<and> successRate (summary (generateReport ''t'' [result_A, result_B])) = 1 / 2
   \<and> filter success [result_B] = []
   \<and> fastestProvider (summary (generateReport ''t'' [result_B])) = None
   \<and> averageDuration (summary (generateReport ''t'' [result_B])) = 0
   \<and> successRate (summary (generateReport ''t'' [])) = 0"
proof -
  have ok: "filter success [result_A, result_B] = [result_A]"
    by (simp add: result_A_def result_B_def)
  have none: "filter success [result_B] = []"
    by (simp add: result_B_def)
  have vals: "providerName result_A = ''A''" "duration result_A = 10"
    by (simp_all add: result_A_def)
  have ne: "filter success [result_A, result_B] \<noteq> []" "[result_A, result_B] \<noteq> []"
    unfolding ok by simp_all
  have some: "(\<exists>r \<in> set (filter success [result_A, result_B]).
            fastestProvider (summary (generateReport ''t'' [result_A, result_B])) = Some (providerName r)
            \<and> (\<forall>x \<in> set (filter success [result_A, result_B]). duration r \<le> duration x))
        \<and> averageDuration (summary (generateReport ''t'' [result_A, result_B])) =
             sum_list (map duration (filter success [result_A, result_B]))
               / of_nat (length (filter success [result_A, result_B]))"
    using generateReport_summary [of "''t''" "[result_A, result_B]"] ne by blast
  have rate: "successRate (summary (generateReport ''t'' [result_A, result_B])) =
          of_nat (length (filter success [result_A, result_B])) / of_nat (length [result_A, result_B])"
    using generateReport_summary [of "''t''" "[result_A, result_B]"] ne by blast
  have failed_only: "fastestProvider (summary (generateReport ''t'' [result_B])) = None
        \<and> averageDuration (summary (generateReport ''t'' [result_B])) = 0"
    using generateReport_summary [of "''t''" "[result_B]"] none by blast
  have empty: "successRate (summary (generateReport ''t'' [])) = 0"
    using generateReport_summary [of "''t''" "[]"] by blast
  from some [unfolded ok] have best:
    "fastestProvider (summary (generateReport ''t'' [result_A, result_B])) = Some ''A''"
    "averageDuration (summary (generateReport ''t'' [result_A, result_B])) = 10"
    by (simp_all add: vals)
  from rate [unfolded ok] have half:
    "successRate (summary (generateReport ''t'' [result_A, result_B])) = 1 / 2"
    by simp
  from failed_only have nothing1: "fastestProvider (summary (generateReport ''t'' [result_B])) = None"
    by (rule conjunct1)
  from failed_only have nothing2: "averageDuration (summary (generateReport ''t'' [result_B])) = 0"
    by (rule conjunct2)
  from ne best half none nothing1 nothing2 empty show ?thesis
    by (intro conjI)
qed


text \<open>
  C7 (the code differs). \<open>benchmarkImageScan\<close> reads \<open>startTime\<close> before it asks the
  registry for the provider, so the recorded duration of a provider that is not yet cached
  is import + \<^verbatim>\<open>init()\<close> + scan: with importing at 50 ms, initialising at 30 ms and a scan of
  10 ms, a first run records 90 ms for every provider, a second run over the now filled
  cache records 10 ms, and \<open>benchmarkVideoFrame\<close>, which reads \<open>startTime\<close> after loading,
  records 10 ms on a fresh registry.
\<close>

theorem imageScan_duration_includes_loading:
  "scan_time (qr_code ''hello'') = 10
   \<and> (case benchmarkImageScan env_ok (png_of (qr_code ''hello'')) (getInstance, world0) of
         (Resolved report, rw) \<Rightarrow>
           map success (results report) = [True, True, True, True]
           \<and> map duration (results report) = [90, 90, 90, 90]
           \<and> (case benchmarkImageScan env_ok (png_of (qr_code ''hello'')) rw of
                 (Resolved again, rw') \<Rightarrow> map duration (results again) = [10, 10, 10, 10]
               | (Rejected err, rw') \<Rightarrow> False
               | (Pending, rw') \<Rightarrow> False)
       | (Rejected err, rw) \<Rightarrow> False
       | (Pending, rw) \<Rightarrow> False)
   \<and> map duration (results (fst (benchmarkVideoFrame env_ok (\<lambda>k. qr_code ''hello'') 1 (getInstance, world0))))
       = [10, 10, 10, 10]"
proof -
  have a: "scan_time (qr_code ''hello'') = 10"
    by (simp add: qr_code_def no_code_def)
  have b: "case benchmarkImageScan env_ok (png_of (qr_code ''hello'')) (getInstance, world0) of
         (Resolved report, rw) \<Rightarrow>
           map success (results report) = [True, True, True, True]
           \<and> map duration (results report) = [90, 90, 90, 90]
           \<and> (case benchmarkImageScan env_ok (png_of (qr_code ''hello'')) rw of
                 (Resolved again, rw') \<Rightarrow> map duration (results again) = [10, 10, 10, 10]
               | (Rejected err, rw') \<Rightarrow> False
               | (Pending, rw') \<Rightarrow> False)
       | (Rejected err, rw) \<Rightarrow> False
       | (Pending, rw) \<Rightarrow> False"
    by (simp add: eval_defs)
  have c: "map duration (results (fst (benchmarkVideoFrame env_ok (\<lambda>k. qr_code ''hello'') 1 (getInstance, world0))))
       = [10, 10, 10, 10]"
    by (simp add: eval_defs benchmarkVideoFrame_def videoFrameAttempt_def)
  from a b c show ?thesis
    by (intro conjI)
qed



section \<open>Facts about the sampling loop\<close>

lemma live_eq:
  "live =
     (\<lparr>scanner_currentProvider = Some 0, isScanning = True, stream = Some 1, srcObject = True,
       eventListeners = (\<lambda>ev. [])(EventSuccess := [\<lambda>d. None]), pending_loops = 1\<rparr>,
      getInstance\<lparr>loadedProviders := [(''zxing'', 0)], currentProvider := Some 0\<rparr>,
      \<lparr>store = [\<lparr>cls = ZXingProvider, handle = True\<rparr>], clock = 80,
       trace = [EvLoader ''zxing'', EvNew 0, EvInit 0, EvGetUserMedia], localStorage = Some ''zxing''\<rparr>)"
  by (simp add: live_def start_def start_camera_def camera_ok_def BarcodeScanner_new_def on_def
      initializeDefaultProvider_def getPreferredProvider_def eval_defs)



lemma iteration_miss:
  assumes "scanner_currentProvider sc = Some r" and "frame_text (store w ! r) m = None"
  shows "iteration m sc w = (False, elapse 100 (elapse (scan_time m) (record_call (EvScanVideoFrame r) w)))"
  using assms
  by (auto simp: iteration_def scanFrame_def call_scanVideoFrame_def frame_text_def
      split: sum.splits option.splits if_splits)


text \<open>
  The \<^verbatim>\<open>try\<close> block also covers the snapshot and the listeners: when either throws, the
  invocation falls through to \<^verbatim>\<open>setTimeout\<close> like after a failed scan.
\<close>

lemma iteration_capture_fails:
  assumes "scanner_currentProvider sc = Some r" and "frame_text (store w ! r) m = Some t"
    and "\<not> context2d m"
  shows "iteration m sc w = (False, elapse 100 (elapse (scan_time m) (record_call (EvScanVideoFrame r) w)))"
  using assms
  by (auto simp: iteration_def scanFrame_def call_scanVideoFrame_def frame_text_def captureFrame_def
      split: sum.splits option.splits if_splits)

lemma iteration_listener_throws:
  assumes "scanner_currentProvider sc = Some r" and "frame_text (store w ! r) m = Some t"
    and "context2d m"
    and "notify (eventListeners sc EventSuccess) (SuccessData \<lparr>scan_text = t, imageData = dataURL m\<rparr>) = Some err"
  shows "iteration m sc w =
           (False, elapse 100
                     (record_call (EvEmit EventSuccess (SuccessData \<lparr>scan_text = t, imageData = dataURL m\<rparr>))
                        (elapse (scan_time m) (record_call (EvScanVideoFrame r) w))))"
  using assms
  by (auto simp: iteration_def scanFrame_def call_scanVideoFrame_def frame_text_def captureFrame_def
      emit_def split: sum.splits option.splits if_splits)


lemma scan_calls_step [simp]:
  "scan_calls (elapse d w) = scan_calls w"
  "scan_calls (record_call (EvScanVideoFrame r) w) = Suc (scan_calls w)"
  "scan_calls (record_call (EvEmit ev d') w) = scan_calls w"
  by (simp_all add: scan_calls_def elapse_def record_call_def)

lemma success_events_step [simp]:
  "success_events (elapse d w) = success_events w"
  "success_events (record_call (EvScanVideoFrame r) w) = success_events w"
  "success_events (record_call (EvEmit EventSuccess d') w) = Suc (success_events w)"
  by (simp_all add: success_events_def elapse_def record_call_def)

lemma store_step [simp]:
  "store (elapse d w) = store w"
  "store (record_call ev w) = store w"
  "last (trace (record_call ev w)) = ev"
  by (simp_all add: elapse_def record_call_def)

lemma startScanningLoop_miss:
  assumes "isScanning sc" and "scanner_currentProvider sc = Some r"
    and "frame_text (store w ! r) m = None"
  shows "startScanningLoop m (sc, w) =
           (sc, elapse 100 (elapse (scan_time m) (record_call (EvScanVideoFrame r) w)))"
  using assms(1) iteration_miss [OF assms(2,3)] by (simp add: startScanningLoop_def)






lemma event_loop_misses:
  assumes "isScanning sc" and "scanner_currentProvider sc = Some r" and "0 < pending_loops sc"
    and "\<forall>m \<in> set misses. frame_text (store w ! r) m = None"
  shows "\<exists>w'. event_loop e (map Tick misses @ rest) (sc, reg, w) = event_loop e rest (sc, reg, w')
      \<and> store w' = store w
      \<and> trace w' = trace w @ replicate (length misses) (EvScanVideoFrame r)
      \<and> scan_calls w' = scan_calls w + length misses
      \<and> success_events w' = success_events w"
  using assms(4)
proof (induction misses arbitrary: w)
  case Nil
  show ?case by (intro exI [of _ w]) simp
next
  case (Cons m misses)
  let ?w1 = "elapse 100 (elapse (scan_time m) (record_call (EvScanVideoFrame r) w))"
  from Cons.prems have miss: "frame_text (store w ! r) m = None"
    by simp
  have it: "startScanningLoop m (sc, w) = (sc, ?w1)"
    using assms(1,2) miss by (rule startScanningLoop_miss)
  have "\<forall>m \<in> set misses. frame_text (store ?w1 ! r) m = None"
    using Cons.prems by simp
  from Cons.IH [OF this] obtain w' where
    w': "event_loop e (map Tick misses @ rest) (sc, reg, ?w1) = event_loop e rest (sc, reg, w')"
      "store w' = store ?w1" "scan_calls w' = scan_calls ?w1 + length misses"
      "success_events w' = success_events ?w1"
      "trace w' = trace ?w1 @ replicate (length misses) (EvScanVideoFrame r)"
    by blast
  have "event_loop e (map Tick (m # misses) @ rest) (sc, reg, w) = event_loop e rest (sc, reg, w')"
    using assms(3) it w'(1) by simp
  moreover have "store w' = store w"
    using w'(2) by simp
  moreover have "scan_calls w' = scan_calls w + length (m # misses)"
    using w'(3) by simp
  moreover have "success_events w' = success_events w"
    using w'(4) by simp
  moreover have "trace w' = trace w @ replicate (length (m # misses)) (EvScanVideoFrame r)"
    using w'(5) by (simp add: elapse_def record_call_def)
  ultimately show ?case
    by blast
qed







section \<open>Scanning an uploaded file\<close>

lemma scanLoadedImage_null:
  assumes "scanImage (store w ! r) (image f) = Inr None"
  shows "fst (scanLoadedImage e f r (sc, reg, w)) = Rejected NoBarcodeFound"
  using assms by (simp add: scanLoadedImage_def call_scanImage_def)

text \<open>
  C9. A file whose type does not start with \<^verbatim>\<open>image/\<close> is rejected with the
  invalid-image-file error and nothing else happens: the scan engine, the registry and the
  world (its call log included: no image constructed, no provider call) are unchanged. For
  an image file that is read and decoded, a provider whose \<open>scanImage\<close> returns \<^verbatim>\<open>null\<close>,
  be it the engine's own provider or the default provider initialised for this call, makes
  the promise reject with the no-barcode-found error, which differs from the
  invalid-image-file error in kind and in message.
\<close>

theorem scanImageFile_failures:
  "(\<not> prefix ''image/'' (fileType f) \<longrightarrow>
      scanImageFile e f (sc, reg, w) = (Rejected InvalidImageFile, sc, reg, w))
   \<and> (prefix ''image/'' (fileType f) \<and> canvas_context f \<and> readAsDataURL f = ReadData \<and> decodes f
        \<and> scanner_currentProvider sc = Some r
        \<and> scanImage (store w ! r) (image f) = Inr None \<longrightarrow>
      fst (scanImageFile e f (sc, reg, w)) = Rejected NoBarcodeFound)
   \<and> (prefix ''image/'' (fileType f) \<and> canvas_context f \<and> readAsDataURL f = ReadData \<and> decodes f
        \<and> scanner_currentProvider sc = None
        \<and> initializeDefaultProvider e (reg, record_call EvNewImage w) = (Inr r', reg', w')
        \<and> scanImage (store w' ! r') (image f) = Inr None \<longrightarrow>
      fst (scanImageFile e f (sc, reg, w)) = Rejected NoBarcodeFound)
   \<and> NoBarcodeFound \<noteq> InvalidImageFile
   \<and> message NoBarcodeFound \<noteq> message InvalidImageFile"
proof -
  have a: "\<not> prefix ''image/'' (fileType f) \<longrightarrow>
      scanImageFile e f (sc, reg, w) = (Rejected InvalidImageFile, sc, reg, w)"
    by (simp add: scanImageFile_def)
  have b: "prefix ''image/'' (fileType f) \<and> canvas_context f \<and> readAsDataURL f = ReadData \<and> decodes f
        \<and> scanner_currentProvider sc = Some r
        \<and> scanImage (store w ! r) (image f) = Inr None \<longrightarrow>
      fst (scanImageFile e f (sc, reg, w)) = Rejected NoBarcodeFound"
  proof
    assume h: "prefix ''image/'' (fileType f) \<and> canvas_context f \<and> readAsDataURL f = ReadData \<and> decodes f
        \<and> scanner_currentProvider sc = Some r
        \<and> scanImage (store w ! r) (image f) = Inr None"
    then have "scanImage (store (record_call EvNewImage w) ! r) (image f) = Inr None"
      by simp
    then have "fst (scanLoadedImage e f r (sc, reg, record_call EvNewImage w)) = Rejected NoBarcodeFound"
      by (rule scanLoadedImage_null)
    with h show "fst (scanImageFile e f (sc, reg, w)) = Rejected NoBarcodeFound"
      by (simp add: scanImageFile_def)
  qed
  have c: "prefix ''image/'' (fileType f) \<and> canvas_context f \<and> readAsDataURL f = ReadData \<and> decodes f
        \<and> scanner_currentProvider sc = None
        \<and> initializeDefaultProvider e (reg, record_call EvNewImage w) = (Inr r', reg', w')
        \<and> scanImage (store w' ! r') (image f) = Inr None \<longrightarrow>
      fst (scanImageFile e f (sc, reg, w)) = Rejected NoBarcodeFound"
  proof
    assume h: "prefix ''image/'' (fileType f) \<and> canvas_context f \<and> readAsDataURL f = ReadData \<and> decodes f
        \<and> scanner_currentProvider sc = None
        \<and> initializeDefaultProvider e (reg, record_call EvNewImage w) = (Inr r', reg', w')
        \<and> scanImage (store w' ! r') (image f) = Inr None"
    then have "fst (scanLoadedImage e f r' (sc\<lparr>scanner_currentProvider := Some r'\<rparr>, reg', w'))
        = Rejected NoBarcodeFound"
      by (intro scanLoadedImage_null) simp
    with h show "fst (scanImageFile e f (sc, reg, w)) = Rejected NoBarcodeFound"
      by (simp add: scanImageFile_def)
  qed
  have d: "NoBarcodeFound \<noteq> InvalidImageFile" "message NoBarcodeFound \<noteq> message InvalidImageFile"
    by simp_all
  from a b c d show ?thesis
    by (intro conjI)
qed

theorem scanImageFile_failures_witness:
  "\<not> prefix ''image/'' (fileType text_file)
   \<and> scanImageFile env_ok text_file live = (Rejected InvalidImageFile, live)
   \<and> prefix ''image/'' (fileType (png_of no_code))
   \<and> scanImage (store (snd (snd live)) ! 0) (image (png_of no_code)) = Inr None
   \<and> fst (scanImageFile env_ok (png_of no_code) live) = Rejected NoBarcodeFound
   \<and> fst (scanImageFile env_ok (png_of no_code) (BarcodeScanner_new, getInstance, world0))
       = Rejected NoBarcodeFound"
proof -
  obtain sc reg w where l: "live = (sc, reg, w)"
    by (cases live) auto
  have lw: "sc = fst live" "w = snd (snd live)"
    by (simp_all add: l)
  have t1: "\<not> prefix ''image/'' (fileType text_file)"
    by (simp add: text_file_def png_of_def)
  have png: "prefix ''image/'' (fileType (png_of no_code))" "canvas_context (png_of no_code)"
    "readAsDataURL (png_of no_code) = ReadData" "decodes (png_of no_code)"
    by (simp_all add: png_of_def)
  have cur: "scanner_currentProvider sc = Some 0"
    by (simp add: lw live_eq)
  have null: "scanImage (store w ! 0) (image (png_of no_code)) = Inr None"
    by (simp add: lw live_eq png_of_def scanImage_def no_code_def)
  have fresh: "scanner_currentProvider BarcodeScanner_new = None"
    by (simp add: BarcodeScanner_new_def)
  have dflt: "initializeDefaultProvider env_ok (getInstance, record_call EvNewImage world0) =
      (Inr 0, getInstance\<lparr>loadedProviders := [(''zxing'', 0)], currentProvider := Some 0\<rparr>,
       \<lparr>store = [\<lparr>cls = ZXingProvider, handle = True\<rparr>], clock = 80,
        trace = [EvNewImage, EvLoader ''zxing'', EvNew 0, EvInit 0], localStorage = Some ''zxing''\<rparr>)"
    by (simp add: initializeDefaultProvider_def getPreferredProvider_def eval_defs)
  have null2: "scanImage (store \<lparr>store = [\<lparr>cls = ZXingProvider, handle = True\<rparr>], clock = 80,
        trace = [EvNewImage, EvLoader ''zxing'', EvNew 0, EvInit 0], localStorage = Some ''zxing''\<rparr> ! 0)
        (image (png_of no_code)) = Inr None"
    by (simp add: png_of_def scanImage_def no_code_def)
  have a: "scanImageFile env_ok text_file live = (Rejected InvalidImageFile, live)"
    using scanImageFile_failures [of text_file env_ok sc reg w] t1 unfolding l by blast
  have b: "fst (scanImageFile env_ok (png_of no_code) live) = Rejected NoBarcodeFound"
    using scanImageFile_failures [of "png_of no_code" env_ok sc reg w 0] png cur null unfolding l by blast
  have c: "fst (scanImageFile env_ok (png_of no_code) (BarcodeScanner_new, getInstance, world0))
       = Rejected NoBarcodeFound"
    using scanImageFile_failures [of "png_of no_code" env_ok BarcodeScanner_new getInstance world0 _ 0]
      png fresh dflt null2 by blast
  from t1 a png(1) null [unfolded lw] b c show ?thesis
    by (intro conjI)
qed



section \<open>The scan engine's own provider reference\<close>

lemma trace_step:
  "trace (elapse d w) = trace w"
  "trace (record_call ev w) = trace w @ [ev]"
  by (simp_all add: elapse_def record_call_def)

lemma stop_keeps_provider: "scanner_currentProvider (fst (stop (sc, w))) = scanner_currentProvider sc"
  by (simp add: stop_def Let_def)

lemma startScanningLoop_keeps_provider:
  "scanner_currentProvider (fst (startScanningLoop m (sc, w))) = scanner_currentProvider sc"
proof -
  obtain b w' where it: "iteration m sc w = (b, w')"
    by (cases "iteration m sc w") auto
  show ?thesis
    using it by (cases b) (simp_all add: startScanningLoop_def)
qed

lemma cleanup_keeps_provider:
  "scanner_currentProvider (fst (scanner_cleanup (sc, reg, w))) = scanner_currentProvider sc"
proof -
  obtain sc' w' where st: "stop (sc, w) = (sc', w')"
    by (cases "stop (sc, w)") auto
  have "scanner_currentProvider sc' = scanner_currentProvider sc"
    using stop_keeps_provider [of sc w] st by simp
  then show ?thesis
    by (simp add: scanner_cleanup_def st split: prod.splits)
qed

lemma start_failed_keeps:
  "fst (snd (start_failed err (sc, reg, w))) = sc"
  "fst (snd (snd (start_failed err (sc, reg, w)))) = reg"
  by (simp_all add: start_failed_def split: prod.splits option.splits)

lemma start_camera_keeps_provider:
  "scanner_currentProvider (fst (snd (start_camera cam (sc, reg, w)))) = scanner_currentProvider sc"
  by (simp add: start_camera_def start_failed_keeps Let_def split: sum.splits option.splits)

lemma start_camera_keeps_registry:
  "fst (snd (snd (start_camera cam (sc, reg, w)))) = reg"
  by (simp add: start_camera_def start_failed_keeps Let_def split: sum.splits option.splits)

lemma start_keeps_provider:
  assumes "scanner_currentProvider sc = Some r"
  shows "scanner_currentProvider (fst (snd (start e cam (sc, reg, w)))) = Some r"
    and "fst (snd (snd (start e cam (sc, reg, w)))) = reg"
  using assms by (simp_all add: start_def start_camera_keeps_provider start_camera_keeps_registry)

lemma start_sets_provider:
  assumes "scanner_currentProvider sc = None" and "\<not> isScanning sc"
  shows "case initializeDefaultProvider e (reg, w) of
           (Inl err, reg', w') \<Rightarrow> scanner_currentProvider (fst (snd (start e cam (sc, reg, w)))) = None
         | (Inr r, reg', w') \<Rightarrow> scanner_currentProvider (fst (snd (start e cam (sc, reg, w)))) = Some r"
proof -
  obtain res reg' w' where d: "initializeDefaultProvider e (reg, w) = (res, reg', w')"
    by (cases "initializeDefaultProvider e (reg, w)") auto
  show ?thesis
    using assms
    by (cases res) (simp_all add: start_def d start_failed_keeps start_camera_keeps_provider)
qed

lemma scanLoadedImage_keeps:
  "fst (snd (scanLoadedImage e f r (sc, reg, w))) = sc"
  "fst (snd (snd (scanLoadedImage e f r (sc, reg, w)))) = reg"
  "trace (snd (snd (snd (scanLoadedImage e f r (sc, reg, w))))) = trace w @ [EvScanImage r]"
  by (simp_all add: scanLoadedImage_def call_scanImage_def trace_step
      split: prod.splits sum.splits option.splits)

lemma scanImageFile_keeps_provider:
  assumes "scanner_currentProvider sc = Some r"
  shows "scanner_currentProvider (fst (snd (scanImageFile e f (sc, reg, w)))) = Some r"
  using assms by (simp add: scanImageFile_def scanLoadedImage_keeps split: read_outcome.splits)

lemma scanImageFile_calls_provider:
  assumes "scanner_currentProvider sc = Some r"
    and "prefix ''image/'' (fileType f)" and "canvas_context f" and "readAsDataURL f = ReadData"
    and "decodes f"
  shows "trace (snd (snd (snd (scanImageFile e f (sc, reg, w))))) = trace w @ [EvNewImage, EvScanImage r]"
    and "fst (snd (snd (scanImageFile e f (sc, reg, w)))) = reg"
  using assms by (simp_all add: scanImageFile_def scanLoadedImage_keeps trace_step)

lemma scanImageFile_sets_provider:
  assumes "scanner_currentProvider sc = None"
    and "prefix ''image/'' (fileType f)" and "canvas_context f" and "readAsDataURL f = ReadData"
    and "decodes f"
  shows "case initializeDefaultProvider e (reg, record_call EvNewImage w) of
           (Inl err, reg', w') \<Rightarrow>
             scanner_currentProvider (fst (snd (scanImageFile e f (sc, reg, w)))) = None
         | (Inr r, reg', w') \<Rightarrow>
             scanner_currentProvider (fst (snd (scanImageFile e f (sc, reg, w)))) = Some r"
proof -
  obtain res reg' w' where d: "initializeDefaultProvider e (reg, record_call EvNewImage w) = (res, reg', w')"
    by (cases "initializeDefaultProvider e (reg, record_call EvNewImage w)") auto
  show ?thesis
    using assms by (cases res) (simp_all add: scanImageFile_def d scanLoadedImage_keeps)
qed

lemma event_loop_keeps_provider:
  assumes "scanner_currentProvider sc = Some i"
  shows "scanner_currentProvider (fst (event_loop e steps (sc, reg, w))) = Some i"
  using assms
proof (induction steps arbitrary: sc reg w)
  case Nil
  then show ?case by simp
next
  case (Cons s steps)
  show ?case
  proof (cases s)
    case (Tick m)
    obtain sc' w' where it: "startScanningLoop m (sc, w) = (sc', w')"
      by (cases "startScanningLoop m (sc, w)") auto
    have "scanner_currentProvider sc' = Some i"
      using startScanningLoop_keeps_provider [of m sc w] it Cons.prems by simp
    from Cons.IH [OF this] Cons.IH [OF Cons.prems] show ?thesis
      by (simp add: Tick it)
  next
    case StopCall
    obtain sc' w' where st: "stop (sc, w) = (sc', w')"
      by (cases "stop (sc, w)") auto
    have "scanner_currentProvider sc' = Some i"
      using stop_keeps_provider [of sc w] st Cons.prems by simp
    from Cons.IH [OF this] show ?thesis
      by (simp add: StopCall st)
  next
    case (StartCall cam)
    obtain res sc' reg' w' where st: "start e cam (sc, reg, w) = (res, sc', reg', w')"
      by (cases "start e cam (sc, reg, w)") auto
    have "scanner_currentProvider sc' = Some i"
      using start_keeps_provider(1) [OF Cons.prems, where e = e and cam = cam and reg = reg and w = w] st by simp
    from Cons.IH [OF this] show ?thesis
      by (simp add: StartCall st)
  qed
qed

lemma setCurrentProvider_current:
  assumes "setCurrentProvider e n (reg, w) = (Inr r, reg', w')"
  shows "currentProvider reg' = Some r"
proof -
  let ?w1 = "case currentProvider reg of Some c \<Rightarrow> call_destroy c w | None \<Rightarrow> w"
  obtain res reg1 w2 where l: "loadProvider e n (reg, ?w1) = (res, reg1, w2)"
    by (cases "loadProvider e n (reg, ?w1)") auto
  show ?thesis
    using assms l by (cases res) (auto simp: setCurrentProvider.simps)
qed

lemma setProvider_sets:
  "case setCurrentProvider e n (reg, snd (if isScanning sc then stop (sc, w) else (sc, w))) of
     (Inl err, reg', w') \<Rightarrow>
       fst (setProvider e n cam (sc, reg, w)) = Some err
       \<and> scanner_currentProvider (fst (snd (setProvider e n cam (sc, reg, w)))) = scanner_currentProvider sc
   | (Inr r, reg', w') \<Rightarrow>
       scanner_currentProvider (fst (snd (setProvider e n cam (sc, reg, w)))) = Some r
       \<and> currentProvider (fst (snd (snd (setProvider e n cam (sc, reg, w))))) = Some r"
proof (cases "isScanning sc")
  case True
  obtain sc0 w0 where st: "stop (sc, w) = (sc0, w0)"
    by (cases "stop (sc, w)") auto
  have kept: "scanner_currentProvider sc0 = scanner_currentProvider sc"
    using stop_keeps_provider [of sc w] st by simp
  obtain res reg' w' where s: "setCurrentProvider e n (reg, w0) = (res, reg', w')"
    by (cases "setCurrentProvider e n (reg, w0)") auto
  show ?thesis
  proof (cases res)
    case (Inl err)
    show ?thesis
      using True kept by (simp add: setProvider_def Let_def st s Inl)
  next
    case (Inr r)
    have cur: "currentProvider reg' = Some r"
      using s setCurrentProvider_current unfolding Inr by blast
    have p1: "scanner_currentProvider (sc0\<lparr>scanner_currentProvider := Some r\<rparr>) = Some r"
      by simp
    note sk = start_keeps_provider [OF p1, where e = e and cam = cam and reg = reg' and w = w']
    show ?thesis
      using True cur sk by (simp add: setProvider_def Let_def st s Inr)
  qed
next
  case False
  obtain res reg' w' where s: "setCurrentProvider e n (reg, w) = (res, reg', w')"
    by (cases "setCurrentProvider e n (reg, w)") auto
  show ?thesis
  proof (cases res)
    case (Inl err)
    show ?thesis
      using False by (simp add: setProvider_def Let_def s Inl)
  next
    case (Inr r)
    have cur: "currentProvider reg' = Some r"
      using s setCurrentProvider_current unfolding Inr by blast
    show ?thesis
      using False cur by (simp add: setProvider_def Let_def s Inr)
  qed
qed

lemma loadProvider_store:
  assumes "i < length (store w)"
  shows "store (snd (snd (loadProvider e n (reg, w)))) ! i = store w ! i"
  using assms
  by (simp add: loadProvider.simps Let_def call_init_def alloc_def elapse_def record_call_def nth_append
      split: option.splits sum.splits)

lemma setCurrentProvider_destroys_current:
  assumes "currentProvider reg = Some i" and "i < length (store w)"
    and "cls (store w ! i) \<noteq> Quagga2Provider"
  shows "\<not> handle (store (snd (snd (setCurrentProvider e n (reg, w)))) ! i)
    \<and> cls (store (snd (snd (setCurrentProvider e n (reg, w)))) ! i) = cls (store w ! i)"
proof -
  let ?w1 = "call_destroy i w"
  have len: "i < length (store ?w1)"
    using assms(2) by (simp add: call_destroy_def)
  have at: "store ?w1 ! i = destroy (store w ! i)"
    using assms(2) by (simp add: call_destroy_def)
  obtain res reg' w2 where l: "loadProvider e n (reg, ?w1) = (res, reg', w2)"
    by (cases "loadProvider e n (reg, ?w1)") auto
  have "store w2 ! i = store ?w1 ! i"
    using loadProvider_store [OF len, of e n reg] l by simp
  with at have w2: "store w2 ! i = destroy (store w ! i)"
    by simp
  have "store (snd (snd (setCurrentProvider e n (reg, w)))) ! i = destroy (store w ! i)"
    using assms(1) l w2 by (cases res) (simp_all add: setCurrentProvider.simps)
  then show ?thesis
    using assms(3) by (simp add: destroy_handle destroy_cls)
qed

lemma destroyed_frame_text:
  assumes "\<not> handle p"
  shows "frame_text p m = None"
  using assms
  by (auto simp: frame_text_def scanVideoFrame_def decodeCanvas_def split: provider_class.splits)

lemma destroyed_scanImage_throws:
  assumes "\<not> handle p"
  shows "\<exists>err. scanImage p m = Inl err"
  using assms
  by (auto simp: scanImage_def decodeCanvas_def split: provider_class.splits)

lemma scanLoadedImage_throws:
  assumes "scanImage (store w ! r) (image f) = Inl err"
  shows "fst (scanLoadedImage e f r (sc, reg, w)) = Rejected NoBarcodeFound"
  using assms by (simp add: scanLoadedImage_def call_scanImage_def)

lemma scanImageFile_destroyed:
  assumes "prefix ''image/'' (fileType f)" and "canvas_context f" and "readAsDataURL f = ReadData"
    and "decodes f" and "scanner_currentProvider sc = Some i" and "\<not> handle (store w ! i)"
  shows "fst (scanImageFile e f (sc, reg, w)) = Rejected NoBarcodeFound"
proof -
  from assms(6) have "\<not> handle (store (record_call EvNewImage w) ! i)"
    by simp
  then obtain err where "scanImage (store (record_call EvNewImage w) ! i) (image f) = Inl err"
    using destroyed_scanImage_throws by blast
  then have "fst (scanLoadedImage e f i (sc, reg, record_call EvNewImage w)) = Rejected NoBarcodeFound"
    by (rule scanLoadedImage_throws)
  with assms(1-5) show ?thesis
    by (simp add: scanImageFile_def)
qed

text \<open>
  C10, as amended. The scan engine keeps its own provider reference. \<open>on\<close>, \<open>stop\<close>, an
  invocation of the sampling loop and \<open>scanner_cleanup\<close> never change it. Once it names an
  instance \<open>i\<close>, \<open>start\<close>, \<open>scanImageFile\<close> and any run of the event loop leave it alone,
  and a frame scan and an image scan are calls on instance \<open>i\<close>, whatever the registry
  names. While it is still null, \<open>start\<close> and \<open>scanImageFile\<close> set it to the provider that
  the default initialisation returns (and leave it null when that fails). \<open>setProvider\<close>
  sets it to the provider that the registry's switch returns, so that engine and registry
  agree, and leaves it alone when the switch fails. So when the engine and the registry
  share the current instance \<open>i\<close> and a switch is made on the registry directly, whatever
  its outcome, the engine still names instance \<open>i\<close>, which now holds no engine: a frame
  scan is a call on \<open>i\<close> and throws the not-initialised error, a scanning loop makes one
  call on \<open>i\<close> per frame and stays scheduled without a success event, and an image scan
  calls \<open>i\<close> and rejects with no-barcode-found.
\<close>

theorem scanner_uses_own_provider:
  "scanner_currentProvider (on ev callback sc) = scanner_currentProvider sc
   \<and> scanner_currentProvider (fst (stop (sc, w))) = scanner_currentProvider sc
   \<and> scanner_currentProvider (fst (startScanningLoop m (sc, w))) = scanner_currentProvider sc
   \<and> scanner_currentProvider (fst (scanner_cleanup (sc, reg, w))) = scanner_currentProvider sc
   \<and> (scanner_currentProvider sc = Some i \<longrightarrow>
        scanner_currentProvider (fst (snd (start e cam (sc, reg, w)))) = Some i
        \<and> scanner_currentProvider (fst (snd (scanImageFile e f (sc, reg, w)))) = Some i
        \<and> scanner_currentProvider (fst (event_loop e steps (sc, reg, w))) = Some i
        \<and> fst (scanFrame m sc w) = scanVideoFrame (store w ! i) m
        \<and> trace (snd (scanFrame m sc w)) = trace w @ [EvScanVideoFrame i]
        \<and> (prefix ''image/'' (fileType f) \<and> canvas_context f \<and> readAsDataURL f = ReadData
             \<and> decodes f \<longrightarrow>
             trace (snd (snd (snd (scanImageFile e f (sc, reg, w))))) = trace w @ [EvNewImage, EvScanImage i]
             \<and> fst (snd (snd (scanImageFile e f (sc, reg, w)))) = reg))
   \<and> (scanner_currentProvider sc = None \<and> \<not> isScanning sc \<longrightarrow>
        (case initializeDefaultProvider e (reg, w) of
           (Inl err, reg', w') \<Rightarrow> scanner_currentProvider (fst (snd (start e cam (sc, reg, w)))) = None
         | (Inr r, reg', w') \<Rightarrow> scanner_currentProvider (fst (snd (start e cam (sc, reg, w)))) = Some r))
   \<and> (scanner_currentProvider sc = None \<and> prefix ''image/'' (fileType f) \<and> canvas_context f
        \<and> readAsDataURL f = ReadData \<and> decodes f \<longrightarrow>
        (case initializeDefaultProvider e (reg, record_call EvNewImage w) of
           (Inl err, reg', w') \<Rightarrow>
             scanner_currentProvider (fst (snd (scanImageFile e f (sc, reg, w)))) = None
         | (Inr r, reg', w') \<Rightarrow>
             scanner_currentProvider (fst (snd (scanImageFile e f (sc, reg, w)))) = Some r))
   \<and> (case setCurrentProvider e n (reg, snd (if isScanning sc then stop (sc, w) else (sc, w))) of
         (Inl err, reg', w') \<Rightarrow>
           fst (setProvider e n cam (sc, reg, w)) = Some err
           \<and> scanner_currentProvider (fst (snd (setProvider e n cam (sc, reg, w)))) = scanner_currentProvider sc
       | (Inr r, reg', w') \<Rightarrow>
           scanner_currentProvider (fst (snd (setProvider e n cam (sc, reg, w)))) = Some r
           \<and> currentProvider (fst (snd (snd (setProvider e n cam (sc, reg, w))))) = Some r)
   \<and> (scanner_currentProvider sc = Some i \<and> currentProvider reg = Some i \<and> i < length (store w)
        \<and> cls (store w ! i) \<noteq> Quagga2Provider \<longrightarrow>
        (case setCurrentProvider e n (reg, w) of
           (res, reg', w') \<Rightarrow>
             scanner_getCurrentProvider sc = Some i
             \<and> \<not> handle (store w' ! i)
             \<and> fst (scanFrame m sc w') = Inl (NotInitialized (cls (store w ! i)))
             \<and> trace (snd (scanFrame m sc w')) = trace w' @ [EvScanVideoFrame i]
             \<and> (isScanning sc \<and> 0 < pending_loops sc \<longrightarrow>
                  (case event_loop e (map Tick frames) (sc, reg', w') of
                     (sc', reg'', w'') \<Rightarrow>
                       pending_loops sc' = pending_loops sc
                       \<and> scanner_currentProvider sc' = Some i
                       \<and> trace w'' = trace w' @ replicate (length frames) (EvScanVideoFrame i)
                       \<and> success_events w'' = success_events w'
                       \<and> scan_calls w'' = scan_calls w' + length frames))
             \<and> (prefix ''image/'' (fileType f) \<and> canvas_context f \<and> readAsDataURL f = ReadData
                  \<and> decodes f \<longrightarrow>
                  fst (scanImageFile e f (sc, reg', w')) = Rejected NoBarcodeFound
                  \<and> trace (snd (snd (snd (scanImageFile e f (sc, reg', w')))))
                      = trace w' @ [EvNewImage, EvScanImage i])))"
proof -
  have a: "scanner_currentProvider (on ev callback sc) = scanner_currentProvider sc"
    by (simp add: on_def)
  have b: "scanner_currentProvider (fst (stop (sc, w))) = scanner_currentProvider sc"
    by (rule stop_keeps_provider)
  have c: "scanner_currentProvider (fst (startScanningLoop m (sc, w))) = scanner_currentProvider sc"
    by (rule startScanningLoop_keeps_provider)
  have d: "scanner_currentProvider (fst (scanner_cleanup (sc, reg, w))) = scanner_currentProvider sc"
    by (rule cleanup_keeps_provider)
  have e5: "scanner_currentProvider sc = Some i \<longrightarrow>
        scanner_currentProvider (fst (snd (start e cam (sc, reg, w)))) = Some i
        \<and> scanner_currentProvider (fst (snd (scanImageFile e f (sc, reg, w)))) = Some i
        \<and> scanner_currentProvider (fst (event_loop e steps (sc, reg, w))) = Some i
        \<and> fst (scanFrame m sc w) = scanVideoFrame (store w ! i) m
        \<and> trace (snd (scanFrame m sc w)) = trace w @ [EvScanVideoFrame i]
        \<and> (prefix ''image/'' (fileType f) \<and> canvas_context f \<and> readAsDataURL f = ReadData
             \<and> decodes f \<longrightarrow>
             trace (snd (snd (snd (scanImageFile e f (sc, reg, w))))) = trace w @ [EvNewImage, EvScanImage i]
             \<and> fst (snd (snd (scanImageFile e f (sc, reg, w)))) = reg)"
  proof
    assume cur: "scanner_currentProvider sc = Some i"
    have e1: "scanner_currentProvider (fst (snd (start e cam (sc, reg, w)))) = Some i"
      using cur by (rule start_keeps_provider(1))
    have e2: "scanner_currentProvider (fst (snd (scanImageFile e f (sc, reg, w)))) = Some i"
      using cur by (rule scanImageFile_keeps_provider)
    have e3: "scanner_currentProvider (fst (event_loop e steps (sc, reg, w))) = Some i"
      using cur by (rule event_loop_keeps_provider)
    have e4: "fst (scanFrame m sc w) = scanVideoFrame (store w ! i) m"
      using cur by (simp add: scanFrame_def call_scanVideoFrame_def)
    have e6: "trace (snd (scanFrame m sc w)) = trace w @ [EvScanVideoFrame i]"
      using cur by (simp add: scanFrame_def call_scanVideoFrame_def trace_step)
    have e7: "prefix ''image/'' (fileType f) \<and> canvas_context f \<and> readAsDataURL f = ReadData
             \<and> decodes f \<longrightarrow>
             trace (snd (snd (snd (scanImageFile e f (sc, reg, w))))) = trace w @ [EvNewImage, EvScanImage i]
             \<and> fst (snd (snd (scanImageFile e f (sc, reg, w)))) = reg"
      using scanImageFile_calls_provider [OF cur, where f = f and e = e and reg = reg and w = w] by blast
    from e1 e2 e3 e4 e6 e7
    show "scanner_currentProvider (fst (snd (start e cam (sc, reg, w)))) = Some i
        \<and> scanner_currentProvider (fst (snd (scanImageFile e f (sc, reg, w)))) = Some i
        \<and> scanner_currentProvider (fst (event_loop e steps (sc, reg, w))) = Some i
        \<and> fst (scanFrame m sc w) = scanVideoFrame (store w ! i) m
        \<and> trace (snd (scanFrame m sc w)) = trace w @ [EvScanVideoFrame i]
        \<and> (prefix ''image/'' (fileType f) \<and> canvas_context f \<and> readAsDataURL f = ReadData
             \<and> decodes f \<longrightarrow>
             trace (snd (snd (snd (scanImageFile e f (sc, reg, w))))) = trace w @ [EvNewImage, EvScanImage i]
             \<and> fst (snd (snd (scanImageFile e f (sc, reg, w)))) = reg)"
      by (intro conjI)
  qed
  have f6: "scanner_currentProvider sc = None \<and> \<not> isScanning sc \<longrightarrow>
        (case initializeDefaultProvider e (reg, w) of
           (Inl err, reg', w') \<Rightarrow> scanner_currentProvider (fst (snd (start e cam (sc, reg, w)))) = None
         | (Inr r, reg', w') \<Rightarrow> scanner_currentProvider (fst (snd (start e cam (sc, reg, w)))) = Some r)"
    by (intro impI, elim conjE, rule start_sets_provider)
  have f7: "scanner_currentProvider sc = None \<and> prefix ''image/'' (fileType f) \<and> canvas_context f
        \<and> readAsDataURL f = ReadData \<and> decodes f \<longrightarrow>
        (case initializeDefaultProvider e (reg, record_call EvNewImage w) of
           (Inl err, reg', w') \<Rightarrow>
             scanner_currentProvider (fst (snd (scanImageFile e f (sc, reg, w)))) = None
         | (Inr r, reg', w') \<Rightarrow>
             scanner_currentProvider (fst (snd (scanImageFile e f (sc, reg, w)))) = Some r)"
    by (intro impI, elim conjE, rule scanImageFile_sets_provider)
  have f8: "case setCurrentProvider e n (reg, snd (if isScanning sc then stop (sc, w) else (sc, w))) of
         (Inl err, reg', w') \<Rightarrow>
           fst (setProvider e n cam (sc, reg, w)) = Some err
           \<and> scanner_currentProvider (fst (snd (setProvider e n cam (sc, reg, w)))) = scanner_currentProvider sc
       | (Inr r, reg', w') \<Rightarrow>
           scanner_currentProvider (fst (snd (setProvider e n cam (sc, reg, w)))) = Some r
           \<and> currentProvider (fst (snd (snd (setProvider e n cam (sc, reg, w))))) = Some r"
    by (rule setProvider_sets)
  have g: "scanner_currentProvider sc = Some i \<and> currentProvider reg = Some i \<and> i < length (store w)
        \<and> cls (store w ! i) \<noteq> Quagga2Provider \<longrightarrow>
        (case setCurrentProvider e n (reg, w) of
           (res, reg', w') \<Rightarrow>
             scanner_getCurrentProvider sc = Some i
             \<and> \<not> handle (store w' ! i)
             \<and> fst (scanFrame m sc w') = Inl (NotInitialized (cls (store w ! i)))
             \<and> trace (snd (scanFrame m sc w')) = trace w' @ [EvScanVideoFrame i]
             \<and> (isScanning sc \<and> 0 < pending_loops sc \<longrightarrow>
                  (case event_loop e (map Tick frames) (sc, reg', w') of
                     (sc', reg'', w'') \<Rightarrow>
                       pending_loops sc' = pending_loops sc
                       \<and> scanner_currentProvider sc' = Some i
                       \<and> trace w'' = trace w' @ replicate (length frames) (EvScanVideoFrame i)
                       \<and> success_events w'' = success_events w'
                       \<and> scan_calls w'' = scan_calls w' + length frames))
             \<and> (prefix ''image/'' (fileType f) \<and> canvas_context f \<and> readAsDataURL f = ReadData
                  \<and> decodes f \<longrightarrow>
                  fst (scanImageFile e f (sc, reg', w')) = Rejected NoBarcodeFound
                  \<and> trace (snd (snd (snd (scanImageFile e f (sc, reg', w')))))
                      = trace w' @ [EvNewImage, EvScanImage i]))"
  proof
    assume h: "scanner_currentProvider sc = Some i \<and> currentProvider reg = Some i \<and> i < length (store w)
        \<and> cls (store w ! i) \<noteq> Quagga2Provider"
    then have cur: "scanner_currentProvider sc = Some i"
      by simp
    obtain res reg' w' where s: "setCurrentProvider e n (reg, w) = (res, reg', w')"
      by (cases "setCurrentProvider e n (reg, w)") auto
    have dead: "\<not> handle (store w' ! i)" and same: "cls (store w' ! i) = cls (store w ! i)"
      using setCurrentProvider_destroys_current [where reg = reg and i = i and w = w and e = e and n = n] h s by simp_all
    have g1: "scanner_getCurrentProvider sc = Some i"
      using h by (simp add: scanner_getCurrentProvider_def)
    have g2: "fst (scanFrame m sc w') = Inl (NotInitialized (cls (store w ! i)))"
      using h dead same scanVideoFrame_uninitialized [of "store w' ! i" m]
      by (simp add: scanFrame_def call_scanVideoFrame_def)
    have g2': "trace (snd (scanFrame m sc w')) = trace w' @ [EvScanVideoFrame i]"
      using cur by (simp add: scanFrame_def call_scanVideoFrame_def trace_step)
    have g3: "isScanning sc \<and> 0 < pending_loops sc \<longrightarrow>
                  (case event_loop e (map Tick frames) (sc, reg', w') of
                     (sc', reg'', w'') \<Rightarrow>
                       pending_loops sc' = pending_loops sc
                       \<and> scanner_currentProvider sc' = Some i
                       \<and> trace w'' = trace w' @ replicate (length frames) (EvScanVideoFrame i)
                       \<and> success_events w'' = success_events w'
                       \<and> scan_calls w'' = scan_calls w' + length frames)"
    proof
      assume run: "isScanning sc \<and> 0 < pending_loops sc"
      then have sc: "isScanning sc" and pos: "0 < pending_loops sc"
        by simp_all
      have "\<forall>x \<in> set frames. frame_text (store w' ! i) x = None"
        using dead by (simp add: destroyed_frame_text)
      from event_loop_misses [OF sc cur pos this, where e = e and rest = "[]" and reg = reg']
      show "case event_loop e (map Tick frames) (sc, reg', w') of
                     (sc', reg'', w'') \<Rightarrow>
                       pending_loops sc' = pending_loops sc
                       \<and> scanner_currentProvider sc' = Some i
                       \<and> trace w'' = trace w' @ replicate (length frames) (EvScanVideoFrame i)
                       \<and> success_events w'' = success_events w'
                       \<and> scan_calls w'' = scan_calls w' + length frames"
        using cur by auto
    qed
    have g4: "prefix ''image/'' (fileType f) \<and> canvas_context f \<and> readAsDataURL f = ReadData
                  \<and> decodes f \<longrightarrow>
                  fst (scanImageFile e f (sc, reg', w')) = Rejected NoBarcodeFound
                  \<and> trace (snd (snd (snd (scanImageFile e f (sc, reg', w')))))
                      = trace w' @ [EvNewImage, EvScanImage i]"
    proof (intro impI conjI; elim conjE)
      assume ok: "prefix ''image/'' (fileType f)" "canvas_context f" "readAsDataURL f = ReadData"
        "decodes f"
      show "fst (scanImageFile e f (sc, reg', w')) = Rejected NoBarcodeFound"
        using ok cur dead by (rule scanImageFile_destroyed)
      show "trace (snd (snd (snd (scanImageFile e f (sc, reg', w')))))
          = trace w' @ [EvNewImage, EvScanImage i]"
        using cur ok by (rule scanImageFile_calls_provider(1))
    qed
    from g1 dead g2 g2' g3 g4 show "case setCurrentProvider e n (reg, w) of
           (res, reg', w') \<Rightarrow>
             scanner_getCurrentProvider sc = Some i
             \<and> \<not> handle (store w' ! i)
             \<and> fst (scanFrame m sc w') = Inl (NotInitialized (cls (store w ! i)))
             \<and> trace (snd (scanFrame m sc w')) = trace w' @ [EvScanVideoFrame i]
             \<and> (isScanning sc \<and> 0 < pending_loops sc \<longrightarrow>
                  (case event_loop e (map Tick frames) (sc, reg', w') of
                     (sc', reg'', w'') \<Rightarrow>
                       pending_loops sc' = pending_loops sc
                       \<and> scanner_currentProvider sc' = Some i
                       \<and> trace w'' = trace w' @ replicate (length frames) (EvScanVideoFrame i)
                       \<and> success_events w'' = success_events w'
                       \<and> scan_calls w'' = scan_calls w' + length frames))
             \<and> (prefix ''image/'' (fileType f) \<and> canvas_context f \<and> readAsDataURL f = ReadData
                  \<and> decodes f \<longrightarrow>
                  fst (scanImageFile e f (sc, reg', w')) = Rejected NoBarcodeFound
                  \<and> trace (snd (snd (snd (scanImageFile e f (sc, reg', w')))))
                      = trace w' @ [EvNewImage, EvScanImage i])"
      unfolding s by simp
  qed
  from a b c d e5 f6 f7 f8 g show ?thesis
    by (intro conjI)
qed

theorem scanner_uses_own_provider_witness:
  "scanner_currentProvider (fst live) = Some 0 \<and> currentProvider (fst (snd live)) = Some 0
   \<and> isScanning (fst live) \<and> pending_loops (fst live) = 1 \<and> handle (store (snd (snd live)) ! 0)
   \<and> (case setCurrentProvider env_ok ''zxing-wasm'' (snd live) of
         (res, reg', w') \<Rightarrow>
           res = Inr 1 \<and> currentProvider reg' = Some 1
           \<and> scanner_getCurrentProvider (fst live) = Some 0
           \<and> \<not> handle (store w' ! 0)
           \<and> fst (scanFrame (qr_code ''hello'') (fst live) w') = Inl (NotInitialized ZXingProvider)
           \<and> trace (snd (scanFrame (qr_code ''hello'') (fst live) w')) = trace w' @ [EvScanVideoFrame 0]
           \<and> (case event_loop env_ok (map Tick [qr_code ''hello'', qr_code ''hello'']) (fst live, reg', w') of
                 (sc', reg'', w'') \<Rightarrow>
                   pending_loops sc' = 1 \<and> success_events w'' = 0 \<and> scan_calls w'' = 2
                   \<and> trace w'' = trace w' @ [EvScanVideoFrame 0, EvScanVideoFrame 0])
           \<and> fst (scanImageFile env_ok (png_of (qr_code ''hello'')) (fst live, reg', w'))
               = Rejected NoBarcodeFound
           \<and> trace (snd (snd (snd (scanImageFile env_ok (png_of (qr_code ''hello'')) (fst live, reg', w')))))
               = trace w' @ [EvNewImage, EvScanImage 0])
   \<and> scanner_currentProvider (fst (snd (start env_ok camera_ok live))) = Some 0
   \<and> scanner_currentProvider (fst (snd (scanImageFile env_ok (png_of no_code) live))) = Some 0
   \<and> scanner_currentProvider (fst (snd (setProvider env_ok ''zxing-wasm'' camera_ok live))) = Some 1
   \<and> currentProvider (fst (snd (snd (setProvider env_ok ''zxing-wasm'' camera_ok live)))) = Some 1
   \<and> scanner_currentProvider BarcodeScanner_new = None
   \<and> scanner_currentProvider (fst (snd (start env_ok camera_ok (BarcodeScanner_new, getInstance, world0))))
       = Some 0
   \<and> scanner_currentProvider
        (fst (snd (scanImageFile env_ok (png_of no_code) (BarcodeScanner_new, getInstance, world0))))
       = Some 0"
proof -
  obtain sc reg w where l: "live = (sc, reg, w)"
    by (cases live) auto
  have lw: "sc = fst live" "reg = fst (snd live)" "w = snd (snd live)"
    by (simp_all add: l)
  have p: "scanner_currentProvider sc = Some 0" "currentProvider reg = Some 0" "isScanning sc"
    "0 < length (store w)" "cls (store w ! 0) \<noteq> Quagga2Provider" "handle (store w ! 0)"
    "cls (store w ! 0) = ZXingProvider" "pending_loops sc = 1"
    by (simp_all add: lw live_eq)
  have png: "prefix ''image/'' (fileType (png_of (qr_code ''hello'')))
      \<and> canvas_context (png_of (qr_code ''hello''))
      \<and> readAsDataURL (png_of (qr_code ''hello'')) = ReadData \<and> decodes (png_of (qr_code ''hello''))"
    by (simp add: png_of_def)
  obtain res reg' w' where s: "setCurrentProvider env_ok ''zxing-wasm'' (reg, w) = (res, reg', w')"
    by (cases "setCurrentProvider env_ok ''zxing-wasm'' (reg, w)") auto
  have sw: "res = Inr 1" "currentProvider reg' = Some 1" "success_events w' = 0" "scan_calls w' = 0"
    using s [symmetric]
    by (simp_all add: lw live_eq eval_defs success_events_def scan_calls_def)
  note t = scanner_uses_own_provider [where sc = sc and w = w and reg = reg and i = 0 and e = env_ok
      and f = "png_of (qr_code ''hello'')" and n = "''zxing-wasm''" and m = "qr_code ''hello''"
      and frames = "[qr_code ''hello'', qr_code ''hello'']" and cam = camera_ok]
  have pre: "scanner_currentProvider sc = Some 0 \<and> currentProvider reg = Some 0 \<and> 0 < length (store w)
      \<and> cls (store w ! 0) \<noteq> Quagga2Provider"
    using p by simp
  note sw2 = t [THEN conjunct2, THEN conjunct2, THEN conjunct2, THEN conjunct2, THEN conjunct2,
      THEN conjunct2, THEN conjunct2, THEN conjunct2, THEN mp, OF pre, unfolded s prod.case]
  obtain sc2 reg2 w2 where lp:
    "event_loop env_ok (map Tick [qr_code ''hello'', qr_code ''hello'']) (sc, reg', w') = (sc2, reg2, w2)"
    by (cases "event_loop env_ok (map Tick [qr_code ''hello'', qr_code ''hello'']) (sc, reg', w')") auto
  have g1: "scanner_getCurrentProvider sc = Some 0"
    using sw2 by (rule conjunct1)
  have g2: "\<not> handle (store w' ! 0)"
    using sw2 by (rule conjunct2 [THEN conjunct1])
  have g3: "fst (scanFrame (qr_code ''hello'') sc w') = Inl (NotInitialized ZXingProvider)"
    using sw2 [THEN conjunct2, THEN conjunct2, THEN conjunct1] unfolding p(7) .
  have g3': "trace (snd (scanFrame (qr_code ''hello'') sc w')) = trace w' @ [EvScanVideoFrame 0]"
    using sw2 [THEN conjunct2, THEN conjunct2, THEN conjunct2, THEN conjunct1] .
  have run: "isScanning sc \<and> 0 < pending_loops sc"
    using p by simp
  have "pending_loops sc2 = pending_loops sc \<and> scanner_currentProvider sc2 = Some 0
      \<and> trace w2 = trace w' @ replicate (length [qr_code ''hello'', qr_code ''hello'']) (EvScanVideoFrame 0)
      \<and> success_events w2 = success_events w'
      \<and> scan_calls w2 = scan_calls w' + length [qr_code ''hello'', qr_code ''hello'']"
    using sw2 [THEN conjunct2, THEN conjunct2, THEN conjunct2, THEN conjunct2, THEN conjunct1,
        THEN mp, OF run]
    unfolding lp prod.case .
  then have g4: "pending_loops sc2 = 1 \<and> success_events w2 = 0 \<and> scan_calls w2 = 2
      \<and> trace w2 = trace w' @ [EvScanVideoFrame 0, EvScanVideoFrame 0]"
    unfolding sw(3,4) p(8) by (simp add: numeral_2_eq_2)
  note img = sw2 [THEN conjunct2, THEN conjunct2, THEN conjunct2, THEN conjunct2, THEN conjunct2,
      THEN mp, OF png]
  have switched: "case setCurrentProvider env_ok ''zxing-wasm'' (reg, w) of
         (res, reg', w') \<Rightarrow>
           res = Inr 1 \<and> currentProvider reg' = Some 1
           \<and> scanner_getCurrentProvider sc = Some 0
           \<and> \<not> handle (store w' ! 0)
           \<and> fst (scanFrame (qr_code ''hello'') sc w') = Inl (NotInitialized ZXingProvider)
           \<and> trace (snd (scanFrame (qr_code ''hello'') sc w')) = trace w' @ [EvScanVideoFrame 0]
           \<and> (case event_loop env_ok (map Tick [qr_code ''hello'', qr_code ''hello'']) (sc, reg', w') of
                 (sc', reg'', w'') \<Rightarrow>
                   pending_loops sc' = 1 \<and> success_events w'' = 0 \<and> scan_calls w'' = 2
                   \<and> trace w'' = trace w' @ [EvScanVideoFrame 0, EvScanVideoFrame 0])
           \<and> fst (scanImageFile env_ok (png_of (qr_code ''hello'')) (sc, reg', w'))
               = Rejected NoBarcodeFound
           \<and> trace (snd (snd (snd (scanImageFile env_ok (png_of (qr_code ''hello'')) (sc, reg', w')))))
               = trace w' @ [EvNewImage, EvScanImage 0]"
    unfolding s lp prod.case
    using sw(1,2) g1 g2 g3 g3' g4 img by (intro conjI) simp_all
  have kept: "scanner_currentProvider (fst (snd (start env_ok camera_ok (sc, reg, w)))) = Some 0
      \<and> scanner_currentProvider (fst (snd (scanImageFile env_ok (png_of no_code) (sc, reg, w)))) = Some 0"
    using scanner_uses_own_provider [where sc = sc and w = w and reg = reg and i = 0 and e = env_ok
          and cam = camera_ok and f = "png_of no_code",
          THEN conjunct2, THEN conjunct2, THEN conjunct2, THEN conjunct2, THEN conjunct1, THEN mp, OF p(1)]
    by (intro conjI) simp_all
  have r2: "fst (setCurrentProvider env_ok ''zxing-wasm''
      (reg, snd (if isScanning sc then stop (sc, w) else (sc, w)))) = Inr 1"
    by (simp add: lw live_eq eval_defs stop_def)
  obtain reg3 w3 where s3: "setCurrentProvider env_ok ''zxing-wasm''
      (reg, snd (if isScanning sc then stop (sc, w) else (sc, w))) = (Inr 1, reg3, w3)"
    using r2
    by (cases "setCurrentProvider env_ok ''zxing-wasm''
      (reg, snd (if isScanning sc then stop (sc, w) else (sc, w)))") auto
  note viaEngine = t [THEN conjunct2, THEN conjunct2, THEN conjunct2, THEN conjunct2, THEN conjunct2,
      THEN conjunct2, THEN conjunct2, THEN conjunct1, unfolded s3 prod.case sum.case]
  have fresh: "scanner_currentProvider BarcodeScanner_new = None \<and> \<not> isScanning BarcodeScanner_new"
    by (simp add: BarcodeScanner_new_def)
  have d0: "fst (initializeDefaultProvider env_ok (getInstance, world0)) = Inr 0"
    by (simp add: initializeDefaultProvider_def getPreferredProvider_def eval_defs)
  obtain reg4 w4 where s4: "initializeDefaultProvider env_ok (getInstance, world0) = (Inr 0, reg4, w4)"
    using d0 by (cases "initializeDefaultProvider env_ok (getInstance, world0)") auto
  note t0 = scanner_uses_own_provider [where sc = BarcodeScanner_new and w = world0 and reg = getInstance
      and e = env_ok and cam = camera_ok and f = "png_of no_code"]
  note started = t0 [THEN conjunct2, THEN conjunct2, THEN conjunct2, THEN conjunct2, THEN conjunct2,
      THEN conjunct1, THEN mp, OF fresh, unfolded s4 prod.case sum.case]
  have d1: "fst (initializeDefaultProvider env_ok (getInstance, record_call EvNewImage world0)) = Inr 0"
    by (simp add: initializeDefaultProvider_def getPreferredProvider_def eval_defs)
  obtain reg5 w5 where s5:
    "initializeDefaultProvider env_ok (getInstance, record_call EvNewImage world0) = (Inr 0, reg5, w5)"
    using d1 by (cases "initializeDefaultProvider env_ok (getInstance, record_call EvNewImage world0)") auto
  have fresh_png: "scanner_currentProvider BarcodeScanner_new = None
      \<and> prefix ''image/'' (fileType (png_of no_code)) \<and> canvas_context (png_of no_code)
      \<and> readAsDataURL (png_of no_code) = ReadData \<and> decodes (png_of no_code)"
    by (simp add: BarcodeScanner_new_def png_of_def)
  note uploaded = t0 [THEN conjunct2, THEN conjunct2, THEN conjunct2, THEN conjunct2, THEN conjunct2,
      THEN conjunct2, THEN conjunct1, THEN mp, OF fresh_png, unfolded s5 prod.case sum.case]
  from p(1,2,3,8,6) switched kept [THEN conjunct1] kept [THEN conjunct2]
    viaEngine [THEN conjunct1] viaEngine [THEN conjunct2] fresh [THEN conjunct1] started uploaded
  show ?thesis
    unfolding l fst_conv snd_conv by (intro conjI)
qed

text \<open>
  C10 as stated fails in one clause: \<open>scanImageFile\<close> too sets the engine's reference. On a
  new engine, whose reference is null, scanning an uploaded image initialises the default
  provider and stores it in the engine.
\<close>

theorem scanImageFile_sets_scanner_provider:
  "scanner_currentProvider BarcodeScanner_new = None
   \<and> scanner_currentProvider
        (fst (snd (scanImageFile env_ok (png_of (qr_code ''hello'')) (BarcodeScanner_new, getInstance, world0))))
       = Some 0"
  by (simp add: BarcodeScanner_new_def scanImageFile_def scanLoadedImage_def
      initializeDefaultProvider_def getPreferredProvider_def eval_defs)

end
